theory Spec2Isabelle
  imports Complex_Main
begin

section \<open>Python values, strings and exceptions\<close>

text \<open>
  The values the two integrations pass around: \<open>None\<close>, booleans, integers, floats
  (carried, never computed with), strings and opaque framework objects. A string is a
  sequence of code points below 256, the characters a WSGI status line is made of.
\<close>

datatype pyval = PNone | PBool bool | PInt int | PFloat rat | PStr string | PObj nat

text \<open>Python's truth test, as \<open>if x:\<close> and \<open>not x\<close> apply it. Objects are true.\<close>

fun truthy :: "pyval \<Rightarrow> bool" where
  "truthy PNone = False"
| "truthy (PBool b) = b"
| "truthy (PInt n) = (n \<noteq> 0)"
| "truthy (PFloat r) = (r \<noteq> 0)"
| "truthy (PStr s) = (s \<noteq> [])"
| "truthy (PObj _) = True"

text \<open>\<open>d.get(k)\<close> and \<open>getattr(o, k, None)\<close> give \<open>None\<close> for a missing key.\<close>

definition or_none :: "pyval option \<Rightarrow> pyval" where
  "or_none v = (case v of None \<Rightarrow> PNone | Some x \<Rightarrow> x)"

type_synonym headers = "(string \<times> string) list"

text \<open>
  A response of the pyramid framework: the two attributes \<open>trace_tween\<close> reads. A
  pyramid \<open>HTTPException\<close> is such a response that is also an exception.
\<close>

record response =
  status_code :: int
  resp_headers :: headers

datatype pyexn =
    ValueError
  | AttributeError
  | HTTPException response
  | OtherException string

subsection \<open>Strings\<close>

text \<open>\<open>s.partition(sep)\<close> for a one-character separator: head, separator, tail.\<close>

definition partition_str :: "char \<Rightarrow> string \<Rightarrow> string \<times> string \<times> string" where
  "partition_str sep s =
     (let h = takeWhile (\<lambda>c. c \<noteq> sep) s; r = dropWhile (\<lambda>c. c \<noteq> sep) s
      in case r of [] \<Rightarrow> (s, [], []) | c # t \<Rightarrow> (h, [c], t))"

text \<open>
  White space as \<open>str.strip()\<close> sees it, and the narrower set \<open>int()\<close> drops around a
  literal: \<open>int\<close> leaves the ASCII separators 28 to 31 in place, and a literal that
  holds one is rejected.
\<close>

definition is_space :: "char \<Rightarrow> bool" where
  "is_space c =
     (let n = (of_char c :: nat)
      in (9 \<le> n \<and> n \<le> 13) \<or> (28 \<le> n \<and> n \<le> 32) \<or> n = 133 \<or> n = 160)"

definition is_int_space :: "char \<Rightarrow> bool" where
  "is_int_space c =
     (let n = (of_char c :: nat) in (9 \<le> n \<and> n \<le> 13) \<or> n = 32 \<or> n = 133 \<or> n = 160)"

definition is_digit :: "char \<Rightarrow> bool" where
  "is_digit c = (let n = (of_char c :: nat) in 48 \<le> n \<and> n \<le> 57)"

definition digit_val :: "char \<Rightarrow> nat" where
  "digit_val c = (of_char c :: nat) - 48"

definition strip_with :: "(char \<Rightarrow> bool) \<Rightarrow> string \<Rightarrow> string" where
  "strip_with P s = rev (dropWhile P (rev (dropWhile P s)))"

text \<open>\<open>s.strip()\<close>.\<close>

definition strip :: "string \<Rightarrow> string" where
  "strip s = strip_with is_space s"

text \<open>
  The digits of a decimal literal, with Python's single underscores between digits.
  The function is entered where a digit is expected.
\<close>

fun parse_digits :: "nat \<Rightarrow> string \<Rightarrow> nat option" where
  "parse_digits acc [] = None"
| "parse_digits acc [c] = (if is_digit c then Some (acc * 10 + digit_val c) else None)"
| "parse_digits acc (c # u # cs) =
     (if is_digit c
      then (if u = CHR ''_'' then parse_digits (acc * 10 + digit_val c) cs
            else parse_digits (acc * 10 + digit_val c) (u # cs))
      else None)"

text \<open>The interpreter's default limit on the digits of a decimal literal.\<close>

definition int_max_str_digits :: nat where
  "int_max_str_digits = 4300"

text \<open>
  \<open>int(s)\<close> on a string: surrounding white space is dropped, one sign may lead, the
  rest are digits with single underscores between them, no more digits than the limit;
  \<open>None\<close> stands for the \<open>ValueError\<close> of any other string.
\<close>

definition py_int :: "string \<Rightarrow> int option" where
  "py_int s =
     (case strip_with is_int_space s of
        [] \<Rightarrow> None
      | c # cs \<Rightarrow>
          (let body = (if c = CHR ''-'' \<or> c = CHR ''+'' then cs else c # cs)
           in if int_max_str_digits < length (filter is_digit body) then None
              else map_option (\<lambda>n. if c = CHR ''-'' then - int n else int n)
                     (parse_digits 0 body)))"

text \<open>\<open>str(n)\<close> for an integer.\<close>

function str_nat :: "nat \<Rightarrow> string" where
  "str_nat n =
     (if n < 10 then [char_of (48 + n)]
      else str_nat (n div 10) @ [char_of (48 + n mod 10)])"
  by pat_completeness auto
termination
  by (relation "measure id") auto

declare str_nat.simps [simp del]

definition str_int :: "int \<Rightarrow> string" where
  "str_int i = (if i < 0 then CHR ''-'' # str_nat (nat (- i)) else str_nat (nat i))"

text \<open>
  \<open>str(v)\<close>. Only strings and integers reach a format string in the two files; the
  text of a float or of an object is a placeholder.
\<close>

fun py_str :: "pyval \<Rightarrow> string" where
  "py_str (PStr s) = s"
| "py_str (PInt n) = str_int n"
| "py_str PNone = ''None''"
| "py_str (PBool b) = (if b then ''True'' else ''False'')"
| "py_str (PFloat r) = ''<float>''"
| "py_str (PObj n) = ''<object>''"

text \<open>
  \<open>int(v)\<close> on a value: \<open>None\<close> stands for the \<open>TypeError\<close> or \<open>ValueError\<close>
  of a value that converts to no integer. A float is truncated towards zero.
\<close>

fun int_of_pyval :: "pyval \<Rightarrow> int option" where
  "int_of_pyval (PInt n) = Some n"
| "int_of_pyval (PStr s) = py_int s"
| "int_of_pyval (PBool b) = Some (if b then 1 else 0)"
| "int_of_pyval (PFloat r) = Some (if 0 \<le> r then \<lfloor>r\<rfloor> else \<lceil>r\<rceil>)"
| "int_of_pyval PNone = None"
| "int_of_pyval (PObj _) = None"

text \<open>\<open>"{} {}".format(a, b)\<close>.\<close>

definition format2 :: "string \<Rightarrow> string \<Rightarrow> string" where
  "format2 a b = a @ '' '' @ b"

text \<open>
  \<open>dict(pairs)\<close>: insertion order of first occurrence, a later value replaces an
  earlier one under the same key.
\<close>

fun dict_set :: "'k \<Rightarrow> 'v \<Rightarrow> ('k \<times> 'v) list \<Rightarrow> ('k \<times> 'v) list" where
  "dict_set k v [] = [(k, v)]"
| "dict_set k v ((k', v') # d) = (if k = k' then (k, v) # d else (k', v') # dict_set k v d)"

definition py_dict :: "('k \<times> 'v) list \<Rightarrow> ('k \<times> 'v) list" where
  "py_dict xs = foldl (\<lambda>d (k, v). dict_set k v d) [] xs"

section \<open>Spans and the tracer\<close>

text \<open>
  The tracer, its spans and the helpers of \<open>trace_utils\<close> are collaborators of the two
  files (spec, sections 1 and 6). The model keeps of a span what the two files write
  and read: resource, tags, the keyword arguments of each \<open>set_http_meta\<close> call, and
  the parent context, error flag and finished flag the tracer owns.
\<close>

record trace_context =
  trace_id :: nat
  parent_span_id :: nat
  sampling_priority :: "int option"

record http_meta =
  hm_method :: "string option"
  hm_url :: "string option"
  hm_status_code :: pyval
  hm_query :: "string option"
  hm_request_headers :: "headers option"
  hm_response_headers :: "headers option"
  hm_route :: "string option"

text \<open>A call of \<open>set_http_meta\<close> with no keyword argument: each one defaults to \<open>None\<close>.\<close>

definition no_meta :: http_meta where
  "no_meta = \<lparr>hm_method = None, hm_url = None, hm_status_code = PNone, hm_query = None,
     hm_request_headers = None, hm_response_headers = None, hm_route = None\<rparr>"

record span =
  span_name :: string
  service :: "string option"
  resource :: string
  span_type :: string
  tags :: "string \<rightharpoonup> pyval"
  http_calls :: "http_meta list"
  parent :: "trace_context option"
  error :: bool
  finished :: bool

datatype event =
    DistributedHeaders headers
  | Activated trace_context
  | Opened nat
  | Finished nat

text \<open>
  A pin carries a service name; \<open>Pin()\<close> has none. Its tracer is the process-wide one.
\<close>

record pin =
  pin_service :: "string option"

text \<open>
  The process state the two files read and write: the tracer (enabled flag, active
  context, spans by identity, the order of its calls), the \<open>molten\<close> module
  (\<open>_datadog_patch\<close>, the pin, \<open>__version__\<close>, the wrapper layers around
  \<open>BaseApp.__init__\<close> and \<open>App.__call__\<close>), the wrapper layers around pyramid's
  \<open>RendererHelper.render\<close> and the tweens added to the pyramid configuration.
\<close>

record world =
  tracer_enabled :: bool
  active :: "trace_context option"
  spans :: "nat \<Rightarrow> span"
  next_span :: nat
  log :: "event list"
  molten_patched :: bool
  molten_pin :: "pin option"
  molten_version :: string
  init_wrappers :: nat
  call_wrappers :: nat
  render_wrappers :: nat
  tweens :: "string list"

record int_config =
  integration_name :: string
  distributed_tracing :: bool
  analytics_sample_rate :: pyval

record config =
  molten :: int_config
  pyramid :: int_config
  analytics_enabled :: bool

text \<open>
  Functions imported from outside the two files whose results are only passed on:
  they are parameters of the model.
\<close>

record deps =
  schematize_url_operation :: "string \<Rightarrow> string"
  schematize_service_name :: "string \<Rightarrow> string"
  int_service :: "pin \<Rightarrow> int_config \<Rightarrow> string"
  urlencode :: "(string \<times> string) list \<Rightarrow> string"
  is_error_code :: "int \<Rightarrow> bool"
  propagator_extract :: "headers \<Rightarrow> trace_context option"

text \<open>
  Modelled from the spec: the constants of \<open>ddtrace.constants\<close>, \<open>ddtrace.ext\<close>,
  \<open>ddtrace.internal.constants\<close> and \<open>molten/wrappers.py\<close> are declared outside the two
  files. The model fixes pairwise distinct keys named after them.
\<close>

definition COMPONENT :: string where "COMPONENT = ''component''"
definition SPAN_KIND :: string where "SPAN_KIND = ''span.kind''"
definition SERVER :: string where "SERVER = ''server''"
definition SPAN_MEASURED_KEY :: string where "SPAN_MEASURED_KEY = ''_dd.measured''"
definition ANALYTICS_SAMPLE_RATE_KEY :: string where "ANALYTICS_SAMPLE_RATE_KEY = ''_dd1.sr.eausr''"
definition MOLTEN_ROUTE :: string where "MOLTEN_ROUTE = ''molten.route''"
definition WEB :: string where "WEB = ''web''"
definition TEMPLATE :: string where "TEMPLATE = ''template''"
definition STATUS_CODE :: string where "STATUS_CODE = ''http.status_code''"

text \<open>
  Modelled from the spec: \<open>tracer.trace(name, service, resource, span_type)\<close> (section 6)
  creates a span under the active context; the model gives it the next identity. A
  resource that is not given is the span's name.
\<close>

definition tracer_trace ::
  "string \<Rightarrow> string option \<Rightarrow> string option \<Rightarrow> string \<Rightarrow> world \<Rightarrow> nat \<times> world" where
  "tracer_trace name svc res ty w =
     (let i = next_span w;
          s = \<lparr>span_name = name, service = svc,
               resource = (case res of None \<Rightarrow> name | Some r \<Rightarrow> r), span_type = ty,
               tags = Map.empty, http_calls = [], parent = active w,
               error = False, finished = False\<rparr>
      in (i, w\<lparr>spans := (spans w)(i := s), next_span := Suc i, log := log w @ [Opened i]\<rparr>))"

definition on_span :: "nat \<Rightarrow> (span \<Rightarrow> span) \<Rightarrow> world \<Rightarrow> world" where
  "on_span i f w = w\<lparr>spans := (spans w)(i := f (spans w i))\<rparr>"

text \<open>
  Modelled from the spec: \<open>ScopedSpan.setTag(key, value)\<close> and \<open>setResource(value)\<close>
  (section 6) store what they are given; \<open>get_tag\<close> reads a tag, \<open>None\<close> when unset.
\<close>

definition set_tag :: "nat \<Rightarrow> string \<Rightarrow> pyval \<Rightarrow> world \<Rightarrow> world" where
  "set_tag i k v w = on_span i (\<lambda>s. s\<lparr>tags := (tags s)(k \<mapsto> v)\<rparr>) w"

definition set_tag_str :: "nat \<Rightarrow> string \<Rightarrow> string \<Rightarrow> world \<Rightarrow> world" where
  "set_tag_str i k v w = set_tag i k (PStr v) w"

definition get_tag :: "nat \<Rightarrow> string \<Rightarrow> world \<Rightarrow> pyval" where
  "get_tag i k w = or_none (tags (spans w i) k)"

definition set_resource :: "nat \<Rightarrow> string \<Rightarrow> world \<Rightarrow> world" where
  "set_resource i r w = on_span i (\<lambda>s. s\<lparr>resource := r\<rparr>) w"

text \<open>
  Modelled from the spec: \<open>trace_utils.set_http_meta\<close> records the final HTTP metadata
  (section 4.4) and is not among the two files. The model keeps the keyword arguments
  of the call, and gives the status code the effect the helper has: a status code
  that \<open>int\<close> accepts becomes the tag \<open>http.status_code\<close>, and marks the span as
  errored when the configuration counts it as a server error; one that \<open>int\<close>
  rejects is tolerated and sets neither.
\<close>

definition set_http_meta :: "deps \<Rightarrow> nat \<Rightarrow> int_config \<Rightarrow> http_meta \<Rightarrow> world \<Rightarrow> world" where
  "set_http_meta d i cfg m w =
     on_span i
       (\<lambda>s. let s1 = s\<lparr>http_calls := http_calls s @ [m]\<rparr>
            in case int_of_pyval (hm_status_code m) of
                 None \<Rightarrow> s1
               | Some n \<Rightarrow>
                   s1\<lparr>tags := (tags s1)(STATUS_CODE \<mapsto> PStr (py_str (hm_status_code m))),
                      error := error s1 \<or> is_error_code d n\<rparr>) w"

text \<open>
  Modelled from the spec: the end of a \<open>with tracer.trace(...)\<close> block finalises the
  span on every path (section 6), and marks it as errored when an exception leaves the
  block (sections 4.2 and 7).
\<close>

definition span_exit :: "nat \<Rightarrow> pyexn option \<Rightarrow> world \<Rightarrow> world" where
  "span_exit i exn w =
     (on_span i (\<lambda>s. s\<lparr>error := error s \<or> exn \<noteq> None, finished := True\<rparr>) w)
       \<lparr>log := log w @ [Finished i]\<rparr>"

text \<open>The exception a call ends with, if it ends with one.\<close>

definition raised :: "pyexn + 'a \<Rightarrow> pyexn option" where
  "raised r = (case r of Inl e \<Rightarrow> Some e | Inr _ \<Rightarrow> None)"

text \<open>
  Modelled from the spec: \<open>trace_utils.activate_distributed_headers\<close> (section 4.3).
  With distributed tracing off (by \<open>override\<close>, else by the integration's
  configuration) extraction is skipped; otherwise the context extracted from the
  headers, when there is one, becomes the active context.
\<close>

definition activate_distributed_headers ::
  "deps \<Rightarrow> int_config \<Rightarrow> headers \<Rightarrow> bool option \<Rightarrow> world \<Rightarrow> world" where
  "activate_distributed_headers d cfg request_headers override w =
     (let w0 = w\<lparr>log := log w @ [DistributedHeaders request_headers]\<rparr>
      in if override = Some False then w0
         else if override = Some True \<or> distributed_tracing cfg
         then (case propagator_extract d request_headers of
                 None \<Rightarrow> w0
               | Some ctx \<Rightarrow> w0\<lparr>active := Some ctx, log := log w0 @ [Activated ctx]\<rparr>)
         else w0)"

text \<open>Modelled from the spec: \<open>Pin.enabled()\<close> is the enabled flag of the pin's tracer.\<close>

definition pin_enabled :: "pin \<Rightarrow> world \<Rightarrow> bool" where
  "pin_enabled p w = tracer_enabled w"

type_synonym kwargs = "(string \<times> pyval) list"
type_synonym 'a result = "(pyexn + 'a) \<times> world"

section \<open>molten/patch.py\<close>

text \<open>
  The request \<open>molten.http.Request.from_environ\<close> builds; the parsing is the
  framework's, so the model's environ is the request it parses to.
\<close>

record molten_request =
  http_method :: string
  scheme :: string
  host :: string
  port :: int
  path :: string
  params :: "(string \<times> string) list"
  headers :: headers

type_synonym environ = molten_request

definition from_environ :: "environ \<Rightarrow> molten_request" where
  "from_environ e = e"

type_synonym start_response = "pyval list \<Rightarrow> kwargs \<Rightarrow> world \<Rightarrow> pyval result"

text \<open>A WSGI callable with the name \<open>func_name\<close> reports for it.\<close>

record wsgi_app =
  func_name :: string
  app_call :: "environ \<Rightarrow> start_response \<Rightarrow> kwargs \<Rightarrow> world \<Rightarrow> pyval result"

definition get_version :: "world \<Rightarrow> string" where
  "get_version w = molten_version w"

definition patch :: "world \<Rightarrow> world" where
  "patch w =
     (if molten_patched w then w
      else w\<lparr>molten_patched := True,
             molten_pin := Some \<lparr>pin_service = None\<rparr>,
             init_wrappers := Suc (init_wrappers w),
             call_wrappers := Suc (call_wrappers w)\<rparr>)"

text \<open>\<open>trace_utils.unwrap\<close> takes one wrapper layer off, when there is one.\<close>

definition unpatch :: "world \<Rightarrow> world" where
  "unpatch w =
     (if molten_patched w
      then w\<lparr>molten_patched := False,
             molten_pin := None,
             init_wrappers := init_wrappers w - 1,
             call_wrappers := call_wrappers w - 1\<rparr>
      else w)"

text \<open>
  The wrapper around the response-emission callback, closed over the request span and
  the request of \<open>patch_app_call\<close>.
\<close>

definition w_start_response ::
  "deps \<Rightarrow> config \<Rightarrow> nat \<Rightarrow> molten_request \<Rightarrow> start_response \<Rightarrow> start_response" where
  "w_start_response d cfg sp request wrapped args kwargs w =
     (case molten_pin w of
        None \<Rightarrow> wrapped args kwargs w
      | Some pin \<Rightarrow>
          if \<not> pin_enabled pin w then wrapped args kwargs w
          else (case args of
                  [status, hdrs, exc_info] \<Rightarrow>
                    (case status of
                       PStr st \<Rightarrow>
                         (let (tok, _, _) = partition_str CHR '' '' st;
                              code = (case py_int tok of Some n \<Rightarrow> PInt n | None \<Rightarrow> PStr tok);
                              w1 = (if \<not> truthy (get_tag sp MOLTEN_ROUTE w)
                                    then set_resource sp (format2 (http_method request) (py_str code)) w
                                    else w);
                              w2 = set_http_meta d sp (molten cfg)
                                     (no_meta\<lparr>hm_status_code := code\<rparr>) w1
                          in wrapped args kwargs w2)
                     | _ \<Rightarrow> (Inl AttributeError, w))
                | _ \<Rightarrow> (Inl ValueError, w)))"

text \<open>
  \<open>patch_app_call\<close> from the pin check to the call of the wrapped application: the
  request span is opened and tagged, the callback wrapped, the request metadata set.
\<close>

definition app_call_prologue ::
  "deps \<Rightarrow> config \<Rightarrow> pin \<Rightarrow> wsgi_app \<Rightarrow> environ \<Rightarrow> start_response \<Rightarrow> world
     \<Rightarrow> nat \<times> start_response \<times> world" where
  "app_call_prologue d cfg pin wrapped environ start_response w =
     (let request = from_environ environ;
          res = func_name wrapped;
          w1 = activate_distributed_headers d (molten cfg) (py_dict (headers request)) None w;
          (sp, w2) = tracer_trace (schematize_url_operation d ''molten.request'')
                         (Some (int_service d pin (molten cfg))) (Some res) WEB w1;
          w3 = set_tag_str sp COMPONENT (integration_name (molten cfg)) w2;
          w4 = set_tag_str sp SPAN_KIND SERVER w3;
          w5 = set_tag sp SPAN_MEASURED_KEY PNone w4;
          w6 = set_tag sp ANALYTICS_SAMPLE_RATE_KEY (analytics_sample_rate (molten cfg)) w5;
          start_response' = w_start_response d cfg sp request start_response;
          url = scheme request @ ''://'' @ host request @ '':'' @ str_int (port request)
                  @ path request;
          query = urlencode d (py_dict (params request));
          w7 = set_http_meta d sp (molten cfg)
                 (no_meta\<lparr>hm_method := Some (http_method request), hm_url := Some url,
                    hm_query := Some query, hm_request_headers := Some (headers request)\<rparr>) w6;
          w8 = set_tag_str sp ''molten.version'' (molten_version w7) w7
      in (sp, start_response', w8))"

definition patch_app_call ::
  "deps \<Rightarrow> config \<Rightarrow> wsgi_app \<Rightarrow> environ \<times> start_response \<Rightarrow> kwargs \<Rightarrow> world \<Rightarrow> pyval result" where
  "patch_app_call d cfg wrapped args kwargs w =
     (case molten_pin w of
        None \<Rightarrow> app_call wrapped (fst args) (snd args) kwargs w
      | Some pin \<Rightarrow>
          if \<not> pin_enabled pin w then app_call wrapped (fst args) (snd args) kwargs w
          else (let (environ, start_response) = args;
                    (sp, start_response', w8) =
                       app_call_prologue d cfg pin wrapped environ start_response w;
                    (r, w9) = app_call wrapped environ start_response' kwargs w8
                in (r, span_exit sp (raised r) w9)))"

text \<open>
  The references of an application instance that \<open>patch_app_init\<close> replaces, each a
  bare framework object or a wrapper of \<open>molten/wrappers.py\<close> around one.
\<close>

datatype entity =
    Bare nat
  | WrapperRouter entity
  | WrapperMiddleware entity
  | WrapperComponent entity
  | WrapperRenderer entity

record app =
  router :: entity
  middleware :: "entity list"
  injector_components :: "entity list"
  renderers :: "entity list"

definition patch_app_init :: "('a \<Rightarrow> pyexn + app) \<Rightarrow> 'a \<Rightarrow> world \<Rightarrow> pyexn + app" where
  "patch_app_init wrapped args w =
     (case wrapped args of
        Inl e \<Rightarrow> Inl e
      | Inr instance \<Rightarrow>
          (case molten_pin w of
             None \<Rightarrow> Inr instance
           | Some pin \<Rightarrow>
               if \<not> pin_enabled pin w then Inr instance
               else Inr (instance\<lparr>router := WrapperRouter (router instance),
                           middleware := map WrapperMiddleware (middleware instance),
                           injector_components := map WrapperComponent (injector_components instance),
                           renderers := map WrapperRenderer (renderers instance)\<rparr>)))"

text \<open>
  \<open>BaseApp.__init__\<close> as the process finds it: the original constructor under as many
  layers of \<open>patch_app_init\<close> as \<open>wrap_function_wrapper\<close> has put around it.
\<close>

fun layered_init :: "nat \<Rightarrow> ('a \<Rightarrow> pyexn + app) \<Rightarrow> world \<Rightarrow> 'a \<Rightarrow> pyexn + app" where
  "layered_init 0 orig w = orig"
| "layered_init (Suc n) orig w = (\<lambda>args. patch_app_init (layered_init n orig w) args w)"

definition base_app_init :: "('a \<Rightarrow> pyexn + app) \<Rightarrow> 'a \<Rightarrow> world \<Rightarrow> pyexn + app" where
  "base_app_init orig args w = layered_init (init_wrappers w) orig w args"

text \<open>How many wrappers sit around a reference.\<close>

fun wrap_depth :: "entity \<Rightarrow> nat" where
  "wrap_depth (Bare _) = 0"
| "wrap_depth (WrapperRouter e) = Suc (wrap_depth e)"
| "wrap_depth (WrapperMiddleware e) = Suc (wrap_depth e)"
| "wrap_depth (WrapperComponent e) = Suc (wrap_depth e)"
| "wrap_depth (WrapperRenderer e) = Suc (wrap_depth e)"

section \<open>pyramid/trace.py\<close>

definition DD_TWEEN_NAME :: string where
  "DD_TWEEN_NAME = ''ddtrace.contrib.pyramid:trace_tween_factory''"

text \<open>The tracer object, as the value of the request attribute \<open>_datadog_tracer\<close>.\<close>

definition the_tracer :: pyval where
  "the_tracer = PObj 0"

record route =
  route_name :: string
  route_pattern :: string

text \<open>
  A pyramid request: the attributes the two functions read, and the attribute
  \<open>_datadog_tracer\<close> (\<open>None\<close> when the request does not carry it).
\<close>

record request =
  request_method :: string
  path_url :: string
  query_string :: string
  request_headers :: headers
  matched_route :: "route option"
  datadog_tracer :: "pyval option"

text \<open>
  The registry settings, one entry per key of \<open>pyramid/constants.py\<close>; \<open>None\<close> is a
  key that is not set. A tracer given in the settings is held as its state when the
  factory runs.
\<close>

record settings =
  datadog_service :: "string option"
  datadog_tracer_setting :: "world option"
  datadog_trace_enabled :: "pyval option"
  datadog_distributed_tracing :: "pyval option"
  datadog_analytics_enabled :: "pyval option"
  datadog_analytics_sample_rate :: "pyval option"

text \<open>
  A request handler returns a response (or \<open>None\<close>) or raises, and may change the
  request (routing sets \<open>matched_route\<close>) and the process state on the way.
\<close>

type_synonym handler = "request \<Rightarrow> world \<Rightarrow> (pyexn + response option) \<times> request \<times> world"

text \<open>\<open>s.lower()\<close>, one character at a time.\<close>

definition lower_char :: "char \<Rightarrow> char" where
  "lower_char c =
     (let n = (of_char c :: nat)
      in if (65 \<le> n \<and> n \<le> 90) \<or> (192 \<le> n \<and> n \<le> 222 \<and> n \<noteq> 215) then char_of (n + 32)
         else c)"

text \<open>
  \<open>pyramid.settings.asbool\<close>: \<open>None\<close> is false, a boolean is itself, and any other
  value is true when its text, stripped and in lower case, is one of the true words.
  The text of a float is none of them; an object is taken to have another text.
\<close>

definition asbool :: "pyval \<Rightarrow> bool" where
  "asbool s =
     (case s of
        PNone \<Rightarrow> False
      | PBool b \<Rightarrow> b
      | PFloat _ \<Rightarrow> False
      | PObj _ \<Rightarrow> False
      | _ \<Rightarrow> map lower_char (strip (py_str s)) \<in> set [''t'', ''true'', ''y'', ''yes'', ''on'', ''1''])"

definition includeme :: "world \<Rightarrow> world" where
  "includeme w =
     (let w1 = w\<lparr>tweens := tweens w @ [DD_TWEEN_NAME]\<rparr>
      in if \<not> (0 < render_wrappers w1) then w1\<lparr>render_wrappers := Suc (render_wrappers w1)\<rparr>
         else w1)"

definition trace_pyramid :: "world \<Rightarrow> world" where
  "trace_pyramid w = includeme w"

text \<open>
  The keyword arguments of a render call: the value under \<open>request\<close> is a request
  object or some other value.
\<close>

datatype render_val = Req request | Val pyval

type_synonym render_kwargs = "(string \<times> render_val) list"
type_synonym render_func = "pyval list \<Rightarrow> render_kwargs \<Rightarrow> world \<Rightarrow> pyval result"

definition trace_render :: "config \<Rightarrow> render_func \<Rightarrow> render_func" where
  "trace_render cfg func args kwargs w =
     (case map_of kwargs ''request'' of
        None \<Rightarrow> func args kwargs w
      | Some (Val v) \<Rightarrow> func args kwargs w
      | Some (Req rq) \<Rightarrow>
          (let tracer = or_none (datadog_tracer rq)
           in if \<not> truthy tracer then func args kwargs w
              else if tracer \<noteq> the_tracer then (Inl AttributeError, w)
              else (let (sp, w1) = tracer_trace ''pyramid.render'' None None TEMPLATE w;
                        w2 = set_tag_str sp COMPONENT (integration_name (pyramid cfg)) w1;
                        (r, w3) = func args kwargs w2
                    in (r, span_exit sp (raised r) w3))))"

text \<open>\<open>trace_tween\<close> up to the call of the handler: lines 75 to 96.\<close>

definition tween_prologue ::
  "deps \<Rightarrow> config \<Rightarrow> settings \<Rightarrow> string \<Rightarrow> bool \<Rightarrow> request \<Rightarrow> world \<Rightarrow> nat \<times> request \<times> world" where
  "tween_prologue d cfg st svc distributed rq w =
     (let w1 = activate_distributed_headers d (pyramid cfg) (request_headers rq) (Some distributed) w;
          name = schematize_url_operation d ''pyramid.request'';
          (sp, w2) = tracer_trace name (Some svc) (Some ''404'') WEB w1;
          w3 = set_tag_str sp COMPONENT (integration_name (pyramid cfg)) w2;
          w4 = set_tag_str sp SPAN_KIND SERVER w3;
          w5 = set_tag sp SPAN_MEASURED_KEY PNone w4;
          enabled = or_none (datadog_analytics_enabled st);
          w6 = (if (analytics_enabled cfg \<and> enabled \<noteq> PBool False) \<or> enabled = PBool True
                then set_tag sp ANALYTICS_SAMPLE_RATE_KEY
                       (case datadog_analytics_sample_rate st of None \<Rightarrow> PBool True | Some v \<Rightarrow> v) w5
                else w5)
      in (sp, rq\<lparr>datadog_tracer := Some the_tracer\<rparr>, w6))"

text \<open>The \<open>finally\<close> block of \<open>trace_tween\<close>: lines 111 to 132.\<close>

definition tween_finally ::
  "deps \<Rightarrow> config \<Rightarrow> nat \<Rightarrow> request \<Rightarrow> response option \<Rightarrow> pyval \<Rightarrow> world \<Rightarrow> world" where
  "tween_finally d cfg sp rq resp status w =
     (let w1 = (case matched_route rq of
                  None \<Rightarrow> w
                | Some r \<Rightarrow>
                    set_tag_str sp ''pyramid.route.name'' (route_name r)
                      (set_resource sp (format2 (request_method rq) (route_name r)) w));
          (status', response_headers) =
             (case resp of
                Some r \<Rightarrow> (PInt (status_code r), Some (resp_headers r))
              | None \<Rightarrow> (status, None))
      in set_http_meta d sp (pyramid cfg)
           \<lparr>hm_method = Some (request_method rq), hm_url = Some (path_url rq),
            hm_status_code = status', hm_query = Some (query_string rq),
            hm_request_headers = Some (request_headers rq),
            hm_response_headers = response_headers,
            hm_route = map_option route_pattern (matched_route rq)\<rparr> w1)"

definition trace_tween ::
  "deps \<Rightarrow> config \<Rightarrow> handler \<Rightarrow> settings \<Rightarrow> string \<Rightarrow> bool \<Rightarrow> handler" where
  "trace_tween d cfg handler st svc distributed rq w =
     (let (sp, rq1, w1) = tween_prologue d cfg st svc distributed rq w;
          (r, rq2, w2) = handler rq1 w1
      in case r of
           Inr resp \<Rightarrow>
             (Inr resp, rq2, span_exit sp None (tween_finally d cfg sp rq2 resp PNone w2))
         | Inl exn \<Rightarrow>
             (case exn of
                HTTPException e \<Rightarrow>
                  (Inl exn, rq2,
                   span_exit sp (Some exn) (tween_finally d cfg sp rq2 (Some e) PNone w2))
              | _ \<Rightarrow>
                  (Inl exn, rq2,
                   span_exit sp (Some exn) (tween_finally d cfg sp rq2 None (PInt 500) w2))))"

text \<open>The \<open>enabled\<close> flag the factory computes from the settings and the tracer.\<close>

definition tween_enabled :: "settings \<Rightarrow> world \<Rightarrow> bool" where
  "tween_enabled st ddtrace_tracer =
     (let tracer = (case datadog_tracer_setting st of Some t \<Rightarrow> t | None \<Rightarrow> ddtrace_tracer)
      in asbool (case datadog_trace_enabled st of
                   None \<Rightarrow> PBool (tracer_enabled tracer)
                 | Some v \<Rightarrow> v))"

definition trace_tween_factory :: "deps \<Rightarrow> config \<Rightarrow> handler \<Rightarrow> settings \<Rightarrow> world \<Rightarrow> handler" where
  "trace_tween_factory d cfg handler st ddtrace_tracer =
     (let svc = (case datadog_service st of
                   Some s \<Rightarrow> if s \<noteq> [] then s else schematize_service_name d ''pyramid''
                 | None \<Rightarrow> schematize_service_name d ''pyramid'');
          enabled = tween_enabled st ddtrace_tracer;
          distributed = asbool (case datadog_distributed_tracing st of
                                  None \<Rightarrow> PBool True
                                | Some v \<Rightarrow> v)
      in if enabled then trace_tween d cfg handler st svc distributed else handler)"

section \<open>Example inputs\<close>

text \<open>Collaborators: names pass through unchanged, a context comes from one header.\<close>

definition example_deps :: deps where
  "example_deps =
     \<lparr>schematize_url_operation = (\<lambda>n. n),
      schematize_service_name = (\<lambda>n. n),
      int_service = (\<lambda>p c. case pin_service p of Some s \<Rightarrow> s | None \<Rightarrow> integration_name c),
      urlencode = (\<lambda>ps. concat (map (\<lambda>(k, v). k @ ''='' @ v @ ''&'') ps)),
      is_error_code = (\<lambda>n. 500 \<le> n \<and> n \<le> 599),
      propagator_extract =
        (\<lambda>h. case map_of h ''x-datadog-trace-id'' of
                None \<Rightarrow> None
              | Some t \<Rightarrow>
                  (case py_int t of
                     None \<Rightarrow> None
                   | Some n \<Rightarrow> Some \<lparr>trace_id = nat n, parent_span_id = 0, sampling_priority = None\<rparr>))\<rparr>"

definition example_config :: config where
  "example_config =
     \<lparr>molten = \<lparr>integration_name = ''molten'', distributed_tracing = True,
                analytics_sample_rate = PNone\<rparr>,
      pyramid = \<lparr>integration_name = ''pyramid'', distributed_tracing = True,
                 analytics_sample_rate = PNone\<rparr>,
      analytics_enabled = False\<rparr>"

definition blank_span :: span where
  "blank_span =
     \<lparr>span_name = [], service = None, resource = [], span_type = [], tags = Map.empty,
      http_calls = [], parent = None, error = False, finished = False\<rparr>"

text \<open>A process before any instrumentation is installed, with the tracer enabled.\<close>

definition fresh_world :: world where
  "fresh_world =
     \<lparr>tracer_enabled = True, active = None, spans = (\<lambda>_. blank_span), next_span = 0,
      log = [], molten_patched = False, molten_pin = None, molten_version = ''1.0.2'',
      init_wrappers = 0, call_wrappers = 0, render_wrappers = 0, tweens = []\<rparr>"

definition no_settings :: settings where
  "no_settings =
     \<lparr>datadog_service = None, datadog_tracer_setting = None, datadog_trace_enabled = None,
      datadog_distributed_tracing = None, datadog_analytics_enabled = None,
      datadog_analytics_sample_rate = None\<rparr>"

text \<open>A GET request for a path no route matches, with a propagated trace id.\<close>

definition get_missing :: request where
  "get_missing =
     \<lparr>request_method = ''GET'', path_url = ''http://localhost/missing'', query_string = [],
      request_headers = [(''x-datadog-trace-id'', ''100'')], matched_route = None,
      datadog_tracer = None\<rparr>"

definition not_found_handler :: handler where
  "not_found_handler rq w = (Inr (Some \<lparr>status_code = 404, resp_headers = []\<rparr>), rq, w)"

definition items_route :: route where
  "items_route = \<lparr>route_name = ''items'', route_pattern = ''/items/{id}''\<rparr>"

definition routed_handler :: handler where
  "routed_handler rq w =
     (Inr (Some \<lparr>status_code = 200, resp_headers = []\<rparr>),
      rq\<lparr>matched_route := Some items_route\<rparr>, w)"

definition redirect_handler :: handler where
  "redirect_handler rq w =
     (Inl (HTTPException \<lparr>status_code = 302, resp_headers = [(''Location'', ''/'')]\<rparr>), rq, w)"

definition failing_handler :: handler where
  "failing_handler rq w = (Inl (OtherException ''ZeroDivisionError''), rq, w)"

definition get_environ :: environ where
  "get_environ =
     \<lparr>http_method = ''GET'', scheme = ''http'', host = ''localhost'', port = 8000,
      path = ''/missing'', params = [], headers = [(''x-datadog-trace-id'', ''100'')]\<rparr>"

text \<open>The server's own callback: it returns the \<open>write\<close> callable.\<close>

definition server_start_response :: start_response where
  "server_start_response args kwargs w = (Inr (PObj 7), w)"

text \<open>
  An application that resolves no route and emits one status line through the
  callback it is given.
\<close>

definition emit_app :: "string \<Rightarrow> wsgi_app" where
  "emit_app status =
     \<lparr>func_name = ''molten.app.App.__call__'',
      app_call = (\<lambda>environ start_response kwargs w.
        case start_response [PStr status, PObj 1, PNone] [] w of
          (Inl e, w') \<Rightarrow> (Inl e, w')
        | (Inr _, w') \<Rightarrow> (Inr (PObj 2), w'))\<rparr>"

definition example_context :: trace_context where
  "example_context = \<lparr>trace_id = 100, parent_span_id = 0, sampling_priority = None\<rparr>"

text \<open>
  The state the router wrapper leaves once a route has matched: the route tag and the
  route-derived resource are set on span 0.
\<close>

definition routed_world :: world where
  "routed_world =
     set_tag 0 MOLTEN_ROUTE (PStr ''items'')
       (set_resource 0 ''GET /items/{id}'' (patch fresh_world))"

text \<open>A process whose tracer is disabled, and settings that enable the tween all the same.\<close>

definition disabled_world :: world where
  "disabled_world = fresh_world\<lparr>tracer_enabled := False\<rparr>"

definition forced_settings :: settings where
  "forced_settings = no_settings\<lparr>datadog_trace_enabled := Some (PBool True)\<rparr>"

definition plain_render :: render_func where
  "plain_render args kwargs w = (Inr (PStr ''<html/>''), w)"

definition bare_app :: app where
  "bare_app = \<lparr>router = Bare 0, middleware = [Bare 1, Bare 2],
     injector_components = [Bare 3], renderers = [Bare 4]\<rparr>"

text \<open>The token of a status line before its first space, as the callback wrapper takes it.\<close>

definition status_token :: "string \<Rightarrow> string" where
  "status_token status = fst (partition_str CHR '' '' status)"

text \<open>The status code the callback wrapper derives: the integer when the token parses.\<close>

definition parsed_code :: "string \<Rightarrow> pyval" where
  "parsed_code status =
     (case py_int (status_token status) of Some n \<Rightarrow> PInt n | None \<Rightarrow> PStr (status_token status))"

text \<open>\<open>isinstance(exn, HTTPException)\<close>.\<close>

fun is_http_exception :: "pyexn \<Rightarrow> bool" where
  "is_http_exception (HTTPException _) = True"
| "is_http_exception _ = False"

section \<open>Facts about the string functions\<close>

lemma digit_char:
  "k < 10 \<Longrightarrow> is_digit (char_of (48 + k))"
  "k < 10 \<Longrightarrow> digit_val (char_of (48 + k)) = k"
  by (simp_all add: is_digit_def digit_val_def)

lemma digit_not_other:
  assumes "is_digit c"
  shows "c \<noteq> CHR ''_''" "c \<noteq> CHR ''-''" "c \<noteq> CHR ''+''" "\<not> is_int_space c" "\<not> is_space c"
  using assms by (auto simp add: is_digit_def is_int_space_def is_space_def Let_def)

lemma parse_digits_all_digits:
  "ds \<noteq> [] \<Longrightarrow> \<forall>c\<in>set ds. is_digit c \<Longrightarrow>
     parse_digits acc ds = Some (foldl (\<lambda>a c. a * 10 + digit_val c) acc ds)"
  by (induction acc ds rule: parse_digits.induct) (auto simp add: digit_not_other)

lemma str_nat_digits: "\<forall>c\<in>set (str_nat n). is_digit c"
  by (induction n rule: str_nat.induct) (subst str_nat.simps, auto simp add: digit_char)

lemma str_nat_nonempty: "str_nat n \<noteq> []"
  by (subst str_nat.simps) simp

lemma str_nat_value: "foldl (\<lambda>a c. a * 10 + digit_val c) 0 (str_nat n) = n"
  by (induction n rule: str_nat.induct) (subst str_nat.simps, auto simp add: digit_char)

lemma parse_str_nat: "parse_digits 0 (str_nat n) = Some n"
  by (simp add: parse_digits_all_digits str_nat_digits str_nat_nonempty str_nat_value)

lemma strip_with_padded:
  assumes "\<forall>c\<in>set ws. P c" and "\<forall>c\<in>set ws'. P c"
    and "body \<noteq> []" and "\<not> P (hd body)" and "\<not> P (last body)"
  shows "strip_with P (ws @ body @ ws') = body"
proof -
  have "dropWhile P (ws @ body @ ws') = dropWhile P (body @ ws')"
    by (rule dropWhile_append2) (use assms(1) in auto)
  then have a: "dropWhile P (ws @ body @ ws') = body @ ws'"
    using assms(3,4) by (cases body) simp_all
  have b: "dropWhile P (rev (body @ ws')) = rev body"
  proof -
    have "rev (body @ ws') = rev ws' @ rev body" by simp
    moreover have "dropWhile P (rev ws' @ rev body) = dropWhile P (rev body)"
      by (rule dropWhile_append2) (use assms(2) in auto)
    moreover have "dropWhile P (rev body) = rev body"
      using assms(3,5) by (cases "rev body") (auto simp add: last_rev[symmetric] hd_rev)
    ultimately show ?thesis by simp
  qed
  show ?thesis unfolding strip_with_def a b by simp
qed

lemma str_int_shape:
  "str_int n \<noteq> []" "\<not> is_int_space (hd (str_int n))" "\<not> is_int_space (last (str_int n))"
proof -
  have h: "is_digit (hd (str_nat k))" "is_digit (last (str_nat k))" for k
    using str_nat_digits [of k] str_nat_nonempty [of k] by (simp_all add: hd_in_set last_in_set)
  show "str_int n \<noteq> []" by (simp add: str_int_def str_nat_nonempty)
  have m: "\<not> is_int_space CHR ''-''"
    by (simp add: is_int_space_def)
  show "\<not> is_int_space (hd (str_int n))"
    using h(1) [of "nat n"] m by (simp add: str_int_def digit_not_other)
  show "\<not> is_int_space (last (str_int n))"
    using h(2) by (simp add: str_int_def digit_not_other str_nat_nonempty)
qed

lemma py_int_str_int:
  assumes "\<forall>c\<in>set ws. is_int_space c" and "\<forall>c\<in>set ws'. is_int_space c"
    and "length (str_nat (nat \<bar>n\<bar>)) \<le> int_max_str_digits"
  shows "py_int (ws @ str_int n @ ws') = Some n"
proof -
  have s: "strip_with is_int_space (ws @ str_int n @ ws') = str_int n"
    using assms(1,2) by (rule strip_with_padded) (rule str_int_shape)+
  have f: "filter is_digit (str_nat k) = str_nat k" for k
    using str_nat_digits [of k] by (simp add: filter_id_conv)
  have d: "hd (str_nat k) \<noteq> CHR ''-''" "hd (str_nat k) \<noteq> CHR ''+''" for k
    using str_nat_digits [of k] str_nat_nonempty [of k] digit_not_other
    by (metis hd_in_set)+
  show ?thesis
  proof (cases "n < 0")
    case True
    then have a: "nat \<bar>n\<bar> = nat (- n)" by simp
    have "str_int n = CHR ''-'' # str_nat (nat (- n))"
      using True by (simp add: str_int_def)
    then have "py_int (ws @ str_int n @ ws')
        = (if int_max_str_digits < length (str_nat (nat (- n))) then None
           else Some (- int (nat (- n))))"
      unfolding py_int_def s by (simp add: f parse_str_nat)
    with True assms(3) a show ?thesis by simp
  next
    case False
    then have a: "nat \<bar>n\<bar> = nat n" by simp
    obtain c cs where cs: "str_nat (nat n) = c # cs"
      using str_nat_nonempty [of "nat n"] by (cases "str_nat (nat n)") auto
    have "c \<noteq> CHR ''-''" "c \<noteq> CHR ''+''"
      using d [of "nat n"] cs by simp_all
    moreover have "parse_digits 0 (c # cs) = Some (nat n)"
      using parse_str_nat [of "nat n"] cs by simp
    moreover have "length (filter is_digit (c # cs)) \<le> int_max_str_digits"
      using f [of "nat n"] assms(3) a cs by simp
    moreover have "str_int n = c # cs"
      using False cs by (simp add: str_int_def)
    ultimately show ?thesis
      using False unfolding py_int_def s by (simp del: filter.simps)
  qed
qed

lemma in_dropWhile: "c \<in> set s \<Longrightarrow> \<not> P c \<Longrightarrow> c \<in> set (dropWhile P s)"
  by (induction s) auto

lemma in_strip_with: "c \<in> set s \<Longrightarrow> \<not> P c \<Longrightarrow> c \<in> set (strip_with P s)"
  by (simp add: strip_with_def in_dropWhile)

lemma parse_digits_chars:
  "parse_digits acc s = Some m \<Longrightarrow> c \<in> set s \<Longrightarrow> is_digit c \<or> c = CHR ''_''"
  by (induction acc s arbitrary: m rule: parse_digits.induct) (auto split: if_splits)

lemma py_int_bad_char:
  assumes "c \<in> set s" and "\<not> is_digit c" and "c \<noteq> CHR ''_''" and "c \<noteq> CHR ''+''"
    and "c \<noteq> CHR ''-''" and "\<not> is_int_space c"
  shows "py_int s = None"
proof (rule ccontr)
  assume "py_int s \<noteq> None"
  then obtain n where n: "py_int s = Some n" by auto
  have c: "c \<in> set (strip_with is_int_space s)"
    using assms(1,6) by (rule in_strip_with)
  then obtain x xs where x: "strip_with is_int_space s = x # xs"
    by (cases "strip_with is_int_space s") auto
  let ?body = "if x = CHR ''-'' \<or> x = CHR ''+'' then xs else x # xs"
  from n x obtain m where m: "parse_digits 0 ?body = Some m"
    by (auto simp add: py_int_def Let_def split: if_splits)
  have "c \<in> set ?body"
    using c x assms(4,5) by auto
  with m have "is_digit c \<or> c = CHR ''_''" by (rule parse_digits_chars)
  with assms(2,3) show False by simp
qed


lemma parsed_code_int: "int_of_pyval (parsed_code status) = py_int (status_token status)"
  by (simp add: parsed_code_def split: option.splits)

section \<open>Basic facts about the span operations\<close>

lemma on_span_fields:
  "spans (on_span i f w) = (spans w)(i := f (spans w i))"
  "log (on_span i f w) = log w"
  "next_span (on_span i f w) = next_span w"
  "active (on_span i f w) = active w"
  "tracer_enabled (on_span i f w) = tracer_enabled w"
  "molten_pin (on_span i f w) = molten_pin w"
  "molten_version (on_span i f w) = molten_version w"
  by (simp_all add: on_span_def)

lemmas span_ops = set_tag_def set_tag_str_def set_resource_def

lemma keys_distinct:
  "COMPONENT \<noteq> SPAN_KIND" "COMPONENT \<noteq> SPAN_MEASURED_KEY"
  "COMPONENT \<noteq> ANALYTICS_SAMPLE_RATE_KEY" "SPAN_KIND \<noteq> SPAN_MEASURED_KEY"
  "SPAN_KIND \<noteq> ANALYTICS_SAMPLE_RATE_KEY" "SPAN_MEASURED_KEY \<noteq> ANALYTICS_SAMPLE_RATE_KEY"
  "COMPONENT \<noteq> ''molten.version''" "SPAN_KIND \<noteq> ''molten.version''"
  "SPAN_MEASURED_KEY \<noteq> ''molten.version''"
  "STATUS_CODE \<noteq> COMPONENT" "STATUS_CODE \<noteq> SPAN_KIND" "STATUS_CODE \<noteq> SPAN_MEASURED_KEY"
  "STATUS_CODE \<noteq> MOLTEN_ROUTE" "STATUS_CODE \<noteq> ''pyramid.route.name''"
  by (simp_all add: COMPONENT_def SPAN_KIND_def SPAN_MEASURED_KEY_def
        ANALYTICS_SAMPLE_RATE_KEY_def STATUS_CODE_def MOLTEN_ROUTE_def)

lemma set_http_meta_fields:
  "resource (spans (set_http_meta d i c m w) i) = resource (spans w i)"
  "http_calls (spans (set_http_meta d i c m w) i) = http_calls (spans w i) @ [m]"
  "tags (spans (set_http_meta d i c m w) i)
     = (case int_of_pyval (hm_status_code m) of
          None \<Rightarrow> tags (spans w i)
        | Some n \<Rightarrow> (tags (spans w i))(STATUS_CODE \<mapsto> PStr (py_str (hm_status_code m))))"
  "error (spans (set_http_meta d i c m w) i)
     = (error (spans w i) \<or>
        (case int_of_pyval (hm_status_code m) of None \<Rightarrow> False | Some n \<Rightarrow> is_error_code d n))"
  "finished (spans (set_http_meta d i c m w) i) = finished (spans w i)"
  "parent (spans (set_http_meta d i c m w) i) = parent (spans w i)"
  "log (set_http_meta d i c m w) = log w"
  "next_span (set_http_meta d i c m w) = next_span w"
  "molten_pin (set_http_meta d i c m w) = molten_pin w"
  "tracer_enabled (set_http_meta d i c m w) = tracer_enabled w"
  "molten_version (set_http_meta d i c m w) = molten_version w"
  by (simp_all add: set_http_meta_def on_span_fields Let_def split: option.splits)

lemma no_meta_status: "int_of_pyval (hm_status_code no_meta) = None"
  by (simp add: no_meta_def)

lemma tracer_trace_fields:
  "fst (tracer_trace n s r t w) = next_span w"
  "spans (snd (tracer_trace n s r t w)) = (spans w)(next_span w :=
     \<lparr>span_name = n, service = s, resource = (case r of None \<Rightarrow> n | Some x \<Rightarrow> x),
      span_type = t, tags = Map.empty, http_calls = [], parent = active w,
      error = False, finished = False\<rparr>)"
  "log (snd (tracer_trace n s r t w)) = log w @ [Opened (next_span w)]"
  "next_span (snd (tracer_trace n s r t w)) = Suc (next_span w)"
  "molten_version (snd (tracer_trace n s r t w)) = molten_version w"
  by (simp_all add: tracer_trace_def Let_def)

lemma activate_fields:
  "spans (activate_distributed_headers d c h ov w) = spans w"
  "next_span (activate_distributed_headers d c h ov w) = next_span w"
  "molten_version (activate_distributed_headers d c h ov w) = molten_version w"
  by (simp_all add: activate_distributed_headers_def Let_def split: option.splits)

lemma activate_present:
  assumes "ov = Some True \<or> (ov = None \<and> distributed_tracing c)"
    and "propagator_extract d h = Some ctx"
  shows "active (activate_distributed_headers d c h ov w) = Some ctx"
    and "log (activate_distributed_headers d c h ov w)
           = log w @ [DistributedHeaders h, Activated ctx]"
  using assms by (auto simp add: activate_distributed_headers_def Let_def)

lemma span_exit_fields:
  "resource (spans (span_exit i x w) i) = resource (spans w i)"
  "tags (spans (span_exit i x w) i) = tags (spans w i)"
  "http_calls (spans (span_exit i x w) i) = http_calls (spans w i)"
  "error (spans (span_exit i x w) i) = (error (spans w i) \<or> x \<noteq> None)"
  "finished (spans (span_exit i x w) i)"
  "log (span_exit i x w) = log w @ [Finished i]"
  "next_span (span_exit i x w) = next_span w"
  by (simp_all add: span_exit_def on_span_fields)

lemma app_prologue_span:
  "fst (app_call_prologue d cfg p wrapped environ sr w) = next_span w"
  by (simp add: app_call_prologue_def Let_def split_def tracer_trace_fields activate_fields)

lemma app_prologue_resource:
  "resource (spans (snd (snd (app_call_prologue d cfg p wrapped environ sr w))) (next_span w))
     = func_name wrapped"
  by (simp add: app_call_prologue_def Let_def split_def tracer_trace_fields activate_fields
        span_ops on_span_fields set_http_meta_fields)

lemma app_prologue_tags:
  "tags (spans (snd (snd (app_call_prologue d cfg p wrapped environ sr w))) (next_span w)) COMPONENT
     = Some (PStr (integration_name (molten cfg)))"
  "tags (spans (snd (snd (app_call_prologue d cfg p wrapped environ sr w))) (next_span w)) SPAN_KIND
     = Some (PStr SERVER)"
  "tags (spans (snd (snd (app_call_prologue d cfg p wrapped environ sr w))) (next_span w))
     SPAN_MEASURED_KEY = Some PNone"
  by (simp_all add: app_call_prologue_def Let_def split_def tracer_trace_fields activate_fields
        span_ops on_span_fields keys_distinct set_http_meta_fields no_meta_status)

lemma app_prologue_route_tag:
  "tags (spans (snd (snd (app_call_prologue d cfg p wrapped environ sr w))) (next_span w)) MOLTEN_ROUTE
     = None"
  by (simp add: app_call_prologue_def Let_def split_def tracer_trace_fields activate_fields
        span_ops on_span_fields COMPONENT_def SPAN_KIND_def SPAN_MEASURED_KEY_def
        ANALYTICS_SAMPLE_RATE_KEY_def MOLTEN_ROUTE_def set_http_meta_fields no_meta_status)

lemma app_prologue_state:
  "molten_pin (snd (snd (app_call_prologue d cfg p wrapped environ sr w))) = molten_pin w"
  "tracer_enabled (snd (snd (app_call_prologue d cfg p wrapped environ sr w))) = tracer_enabled w"
  "log (snd (snd (app_call_prologue d cfg p wrapped environ sr w)))
     = log (activate_distributed_headers d (molten cfg) (py_dict (headers environ)) None w)
         @ [Opened (next_span w)]"
  "parent (spans (snd (snd (app_call_prologue d cfg p wrapped environ sr w))) (next_span w))
     = active (activate_distributed_headers d (molten cfg) (py_dict (headers environ)) None w)"
  "next_span (snd (snd (app_call_prologue d cfg p wrapped environ sr w))) = Suc (next_span w)"
  "fst (snd (app_call_prologue d cfg p wrapped environ sr w))
     = w_start_response d cfg (next_span w) environ sr"
     apply (simp_all add: app_call_prologue_def Let_def split_def tracer_trace_fields activate_fields
        span_ops on_span_fields from_environ_def set_http_meta_fields)
  apply (simp_all add: activate_distributed_headers_def Let_def tracer_trace_def split: option.splits)
  done

lemma tween_prologue_span:
  "fst (tween_prologue d cfg st svc dt rq w) = next_span w"
  by (simp add: tween_prologue_def Let_def split_def tracer_trace_fields activate_fields)

lemma tween_prologue_resource:
  "resource (spans (snd (snd (tween_prologue d cfg st svc dt rq w))) (next_span w)) = ''404''"
  by (simp add: tween_prologue_def Let_def split_def tracer_trace_fields activate_fields
        span_ops on_span_fields set_http_meta_fields)

lemma tween_prologue_tags:
  "tags (spans (snd (snd (tween_prologue d cfg st svc dt rq w))) (next_span w)) COMPONENT
     = Some (PStr (integration_name (pyramid cfg)))"
  "tags (spans (snd (snd (tween_prologue d cfg st svc dt rq w))) (next_span w)) SPAN_KIND
     = Some (PStr SERVER)"
  "tags (spans (snd (snd (tween_prologue d cfg st svc dt rq w))) (next_span w))
     SPAN_MEASURED_KEY = Some PNone"
  by (simp_all add: tween_prologue_def Let_def split_def tracer_trace_fields activate_fields
        span_ops on_span_fields keys_distinct set_http_meta_fields no_meta_status)

lemma tween_prologue_state:
  "log (snd (snd (tween_prologue d cfg st svc dt rq w)))
     = log (activate_distributed_headers d (pyramid cfg) (request_headers rq) (Some dt) w)
         @ [Opened (next_span w)]"
  "parent (spans (snd (snd (tween_prologue d cfg st svc dt rq w))) (next_span w))
     = active (activate_distributed_headers d (pyramid cfg) (request_headers rq) (Some dt) w)"
  "error (spans (snd (snd (tween_prologue d cfg st svc dt rq w))) (next_span w)) = False"
  "finished (spans (snd (snd (tween_prologue d cfg st svc dt rq w))) (next_span w)) = False"
  "fst (snd (tween_prologue d cfg st svc dt rq w)) = rq\<lparr>datadog_tracer := Some the_tracer\<rparr>"
  "next_span (snd (snd (tween_prologue d cfg st svc dt rq w))) = Suc (next_span w)"
  by (simp_all add: tween_prologue_def Let_def split_def tracer_trace_fields activate_fields
        span_ops on_span_fields set_http_meta_fields)

lemma tween_finally_fields:
  "resource (spans (tween_finally d cfg sp rq resp status w) sp)
     = (case matched_route rq of None \<Rightarrow> resource (spans w sp)
        | Some r \<Rightarrow> format2 (request_method rq) (route_name r))"
  "k \<noteq> STATUS_CODE \<longrightarrow>
   tags (spans (tween_finally d cfg sp rq resp status w) sp) k
     = (case matched_route rq of None \<Rightarrow> tags (spans w sp) k
        | Some r \<Rightarrow> ((tags (spans w sp))(''pyramid.route.name'' \<mapsto> PStr (route_name r))) k)"
  "tags (spans (tween_finally d cfg sp rq resp status w) sp) STATUS_CODE
     = (case int_of_pyval (case resp of Some r \<Rightarrow> PInt (status_code r) | None \<Rightarrow> status) of
          None \<Rightarrow> tags (spans w sp) STATUS_CODE
        | Some n \<Rightarrow>
            Some (PStr (py_str (case resp of Some r \<Rightarrow> PInt (status_code r) | None \<Rightarrow> status))))"
  "http_calls (spans (tween_finally d cfg sp rq resp status w) sp)
     = http_calls (spans w sp) @
       [\<lparr>hm_method = Some (request_method rq), hm_url = Some (path_url rq),
         hm_status_code = (case resp of Some r \<Rightarrow> PInt (status_code r) | None \<Rightarrow> status),
         hm_query = Some (query_string rq),
         hm_request_headers = Some (request_headers rq),
         hm_response_headers = map_option resp_headers resp,
         hm_route = map_option route_pattern (matched_route rq)\<rparr>]"
  "error (spans (tween_finally d cfg sp rq resp status w) sp)
     = (error (spans w sp) \<or>
        (case int_of_pyval (case resp of Some r \<Rightarrow> PInt (status_code r) | None \<Rightarrow> status) of
           None \<Rightarrow> False
         | Some n \<Rightarrow> is_error_code d n))"
  "finished (spans (tween_finally d cfg sp rq resp status w) sp) = finished (spans w sp)"
  "log (tween_finally d cfg sp rq resp status w) = log w"
  "next_span (tween_finally d cfg sp rq resp status w) = next_span w"
  by (auto simp add: tween_finally_def Let_def split_def span_ops on_span_fields
        set_http_meta_fields keys_distinct split: option.splits)

lemma trace_tween_cases:
  assumes "tween_prologue d cfg st svc dt rq w = (sp, rq1, w1)"
    and "handler rq1 w1 = (r, rq2, w2)"
  shows "trace_tween d cfg handler st svc dt rq w =
     (r, rq2,
      span_exit sp (raised r)
        (tween_finally d cfg sp rq2
           (case r of Inr resp \<Rightarrow> resp
            | Inl x \<Rightarrow> (case x of HTTPException e \<Rightarrow> Some e | _ \<Rightarrow> None))
           (case r of Inr resp \<Rightarrow> PNone
            | Inl x \<Rightarrow> if is_http_exception x then PNone else PInt 500)
           w2))"
  using assms by (simp add: trace_tween_def raised_def split: sum.splits pyexn.splits)

lemma patch_app_call_traced:
  assumes "molten_pin w = Some p" and "tracer_enabled w"
  shows "patch_app_call d cfg wrapped (environ, sr) kw w =
     (let P = app_call_prologue d cfg p wrapped environ sr w;
          R = app_call wrapped environ (fst (snd P)) kw (snd (snd P))
      in (fst R, span_exit (fst P) (raised (fst R)) (snd R)))"
  using assms by (simp add: patch_app_call_def pin_enabled_def Let_def split_def)

lemma shim_traced:
  assumes "molten_pin w = Some p" and "tracer_enabled w"
  shows "w_start_response d cfg sp rq wrapped [PStr status, hdrs, exc] kw w =
     wrapped [PStr status, hdrs, exc] kw
       (set_http_meta d sp (molten cfg) (no_meta\<lparr>hm_status_code := parsed_code status\<rparr>)
          (if \<not> truthy (get_tag sp MOLTEN_ROUTE w)
           then set_resource sp (format2 (http_method rq) (py_str (parsed_code status))) w
           else w))"
  using assms
  by (simp add: w_start_response_def pin_enabled_def Let_def split_def parsed_code_def
        status_token_def split: option.splits)

lemma shim_state:
  "resource (spans (set_http_meta d sp c m
       (if \<not> truthy (get_tag sp k w) then set_resource sp r w else w)) sp)
     = (if truthy (get_tag sp k w) then resource (spans w sp) else r)"
  "http_calls (spans (set_http_meta d sp c m
       (if \<not> truthy (get_tag sp k w) then set_resource sp r w else w)) sp)
     = http_calls (spans w sp) @ [m]"
  "tags (spans (set_http_meta d sp c m
       (if \<not> truthy (get_tag sp k w) then set_resource sp r w else w)) sp)
     = (case int_of_pyval (hm_status_code m) of
          None \<Rightarrow> tags (spans w sp)
        | Some n \<Rightarrow> (tags (spans w sp))(STATUS_CODE \<mapsto> PStr (py_str (hm_status_code m))))"
  "error (spans (set_http_meta d sp c m
       (if \<not> truthy (get_tag sp k w) then set_resource sp r w else w)) sp)
     = (error (spans w sp) \<or>
        (case int_of_pyval (hm_status_code m) of None \<Rightarrow> False | Some n \<Rightarrow> is_error_code d n))"
  "next_span (set_http_meta d sp c m
       (if \<not> truthy (get_tag sp k w) then set_resource sp r w else w)) = next_span w"
  "log (set_http_meta d sp c m
       (if \<not> truthy (get_tag sp k w) then set_resource sp r w else w)) = log w"
  by (auto simp add: span_ops on_span_fields set_http_meta_fields split: option.splits)

section \<open>Facts about the example inputs\<close>

lemma example_extract:
  "propagator_extract example_deps [(''x-datadog-trace-id'', ''100'')] = Some example_context"
  by code_simp

lemma example_dict:
  "py_dict [(''x-datadog-trace-id'', ''100'')] = [(''x-datadog-trace-id'', ''100'')]"
  by (simp add: py_dict_def)

lemma example_worlds:
  "next_span fresh_world = 0" "next_span (patch fresh_world) = 0"
  "log fresh_world = []" "log (patch fresh_world) = []"
  "molten_pin (patch fresh_world) = Some \<lparr>pin_service = None\<rparr>"
  "tracer_enabled (patch fresh_world)" "tracer_enabled fresh_world"
  "spans fresh_world = (\<lambda>_. blank_span)" "spans (patch fresh_world) = (\<lambda>_. blank_span)"
  by (simp_all add: fresh_world_def patch_def)

lemma example_tokens:
  "status_token ''4x4 Not Found'' = ''4x4''"
  "py_int ''4x4'' = None"
  "status_token ''404 Not Found'' = ''404''"
  "py_int ''404'' = Some 404"
  "str_int 404 = ''404''"
  "status_token ''200 OK'' = ''200''"
  "py_int ''200'' = Some 200"
  "str_int 200 = ''200''"
  "str_int 302 = ''302''"
  "str_int 500 = ''500''"
  by code_simp+

lemma emit_app_call:
  assumes "molten_pin w = Some p" and "tracer_enabled w"
  shows "snd (patch_app_call d cfg (emit_app status) (environ, server_start_response) kw w)
     = span_exit (next_span w) None
         (set_http_meta d (next_span w) (molten cfg) (no_meta\<lparr>hm_status_code := parsed_code status\<rparr>)
            (set_resource (next_span w) (format2 (http_method environ) (py_str (parsed_code status)))
               (snd (snd (app_call_prologue d cfg p (emit_app status) environ server_start_response w)))))"
proof -
  let ?P = "app_call_prologue d cfg p (emit_app status) environ server_start_response w"
  let ?w8 = "snd (snd ?P)"
  have pin: "molten_pin ?w8 = Some p" "tracer_enabled ?w8"
    using assms by (simp_all add: app_prologue_state)
  have route: "\<not> truthy (get_tag (next_span w) MOLTEN_ROUTE ?w8)"
    by (simp add: get_tag_def app_prologue_route_tag or_none_def)
  have shim: "w_start_response d cfg (next_span w) environ server_start_response
                [PStr status, PObj 1, PNone] [] ?w8
      = server_start_response [PStr status, PObj 1, PNone] []
          (set_http_meta d (next_span w) (molten cfg) (no_meta\<lparr>hm_status_code := parsed_code status\<rparr>)
            (set_resource (next_span w) (format2 (http_method environ) (py_str (parsed_code status))) ?w8))"
    using shim_traced [OF pin, of d cfg "next_span w" environ server_start_response status
        "PObj 1" PNone "[]"] route by simp
  show ?thesis
    using patch_app_call_traced [OF assms, of d cfg "emit_app status" environ
        server_start_response kw] shim
    by (simp add: Let_def app_prologue_span app_prologue_state emit_app_def
          server_start_response_def raised_def)
qed

lemma tween_prologue_triple:
  "tween_prologue d cfg st svc dt rq w =
     (next_span w, rq\<lparr>datadog_tracer := Some the_tracer\<rparr>,
      snd (snd (tween_prologue d cfg st svc dt rq w)))"
  by (simp add: prod_eq_iff tween_prologue_span tween_prologue_state)

lemma tween_final_span:
  assumes "tween_prologue d cfg st svc dt rq w = (sp, rq1, w1)"
    and "handler rq1 w1 = (r, rq2, w2)"
  shows "fst (trace_tween d cfg handler st svc dt rq w) = r"
    and "fst (snd (trace_tween d cfg handler st svc dt rq w)) = rq2"
    and "resource (spans (snd (snd (trace_tween d cfg handler st svc dt rq w))) sp)
           = (case matched_route rq2 of None \<Rightarrow> resource (spans w2 sp)
              | Some rt \<Rightarrow> format2 (request_method rq2) (route_name rt))"
    and "k \<noteq> STATUS_CODE \<longrightarrow>
         tags (spans (snd (snd (trace_tween d cfg handler st svc dt rq w))) sp) k
           = (case matched_route rq2 of None \<Rightarrow> tags (spans w2 sp) k
              | Some rt \<Rightarrow> ((tags (spans w2 sp))(''pyramid.route.name'' \<mapsto> PStr (route_name rt))) k)"
    and "http_calls (spans (snd (snd (trace_tween d cfg handler st svc dt rq w))) sp)
           = http_calls (spans w2 sp) @
             [\<lparr>hm_method = Some (request_method rq2), hm_url = Some (path_url rq2),
               hm_status_code =
                 (case r of Inr None \<Rightarrow> PNone
                  | Inr (Some resp) \<Rightarrow> PInt (status_code resp)
                  | Inl x \<Rightarrow> (case x of HTTPException e \<Rightarrow> PInt (status_code e) | _ \<Rightarrow> PInt 500)),
               hm_query = Some (query_string rq2),
               hm_request_headers = Some (request_headers rq2),
               hm_response_headers =
                 (case r of Inr resp \<Rightarrow> map_option resp_headers resp
                  | Inl x \<Rightarrow> (case x of HTTPException e \<Rightarrow> Some (resp_headers e) | _ \<Rightarrow> None)),
               hm_route = map_option route_pattern (matched_route rq2)\<rparr>]"
    and "raised r \<noteq> None \<longrightarrow>
         error (spans (snd (snd (trace_tween d cfg handler st svc dt rq w))) sp)"
    and "finished (spans (snd (snd (trace_tween d cfg handler st svc dt rq w))) sp)"
    and "log (snd (snd (trace_tween d cfg handler st svc dt rq w))) = log w2 @ [Finished sp]"
  using tween_finally_fields(2) [of k]
  by (simp_all add: trace_tween_cases [of d cfg st svc dt rq w sp rq1 w1 handler r rq2 w2, OF assms]
        span_exit_fields tween_finally_fields(1,3-)
        split: sum.splits pyexn.splits option.splits)

lemma example_handlers:
  "not_found_handler rq w = (Inr (Some \<lparr>status_code = 404, resp_headers = []\<rparr>), rq, w)"
  "routed_handler rq w = (Inr (Some \<lparr>status_code = 200, resp_headers = []\<rparr>),
      rq\<lparr>matched_route := Some items_route\<rparr>, w)"
  "redirect_handler rq w =
     (Inl (HTTPException \<lparr>status_code = 302, resp_headers = [(''Location'', ''/'')]\<rparr>), rq, w)"
  "failing_handler rq w = (Inl (OtherException ''ZeroDivisionError''), rq, w)"
  by (simp_all add: not_found_handler_def routed_handler_def redirect_handler_def
        failing_handler_def)

lemma routed_world_facts:
  "molten_pin routed_world = Some \<lparr>pin_service = None\<rparr>"
  "tracer_enabled routed_world"
  "get_tag 0 MOLTEN_ROUTE routed_world = PStr ''items''"
  "resource (spans routed_world 0) = ''GET /items/{id}''"
  by (simp_all add: routed_world_def span_ops on_span_fields example_worlds get_tag_def
        or_none_def)

lemma trace_tween_exit:
  assumes "tween_prologue d cfg st svc dt rq w = (sp, rq_in, w_in)"
    and "handler rq_in w_in = (r, rq_out, w_out)"
  shows "\<exists>wm. snd (snd (trace_tween d cfg handler st svc dt rq w)) = span_exit sp (raised r) wm \<and>
           http_calls (spans wm sp)
             = http_calls (spans (snd (snd (trace_tween d cfg handler st svc dt rq w))) sp) \<and>
           tags (spans wm sp)
             = tags (spans (snd (snd (trace_tween d cfg handler st svc dt rq w))) sp) \<and>
           finished (spans wm sp) = finished (spans w_out sp) \<and>
           error (spans wm sp)
             = (error (spans w_out sp) \<or>
                (case r of
                   Inr None \<Rightarrow> False
                 | Inr (Some resp) \<Rightarrow> is_error_code d (status_code resp)
                 | Inl x \<Rightarrow> (case x of HTTPException e \<Rightarrow> is_error_code d (status_code e)
                             | _ \<Rightarrow> is_error_code d 500)))"
proof -
  let ?wm = "tween_finally d cfg sp rq_out
           (case r of Inr resp \<Rightarrow> resp
            | Inl x \<Rightarrow> (case x of HTTPException e \<Rightarrow> Some e | _ \<Rightarrow> None))
           (case r of Inr resp \<Rightarrow> PNone
            | Inl x \<Rightarrow> if is_http_exception x then PNone else PInt 500)
           w_out"
  have e: "snd (snd (trace_tween d cfg handler st svc dt rq w)) = span_exit sp (raised r) ?wm"
    using trace_tween_cases [of d cfg st svc dt rq w sp rq_in w_in handler r rq_out w_out] assms
    by simp
  moreover from e have "http_calls (spans ?wm sp)
      = http_calls (spans (snd (snd (trace_tween d cfg handler st svc dt rq w))) sp)"
    by (simp add: span_exit_fields)
  moreover from e have "tags (spans ?wm sp)
      = tags (spans (snd (snd (trace_tween d cfg handler st svc dt rq w))) sp)"
    by (simp add: span_exit_fields)
  moreover have "finished (spans ?wm sp) = finished (spans w_out sp)"
    by (simp add: tween_finally_fields)
  moreover have "error (spans ?wm sp)
             = (error (spans w_out sp) \<or>
                (case r of
                   Inr None \<Rightarrow> False
                 | Inr (Some resp) \<Rightarrow> is_error_code d (status_code resp)
                 | Inl x \<Rightarrow> (case x of HTTPException e \<Rightarrow> is_error_code d (status_code e)
                             | _ \<Rightarrow> is_error_code d 500)))"
    by (simp add: tween_finally_fields split: sum.splits pyexn.splits option.splits)
  ultimately show ?thesis by blast
qed

lemma trace_render_traced:
  assumes "map_of kwargs ''request'' = Some (Req rq)" and "datadog_tracer rq = Some the_tracer"
  shows "trace_render cfg func args kwargs w =
     (let w2 = set_tag_str (next_span w) COMPONENT (integration_name (pyramid cfg))
                 (snd (tracer_trace ''pyramid.render'' None None TEMPLATE w));
          R = func args kwargs w2
      in (fst R, span_exit (next_span w) (raised (fst R)) (snd R)))"
  using assms
  by (simp add: trace_render_def Let_def split_def or_none_def the_tracer_def tracer_trace_fields)

lemma patch_twice: "patch (patch w) = patch w"
  by (simp add: patch_def)

lemma patch_fresh:
  assumes "\<not> molten_patched w"
  shows "init_wrappers (patch w) = Suc (init_wrappers w)"
    and "call_wrappers (patch w) = Suc (call_wrappers w)"
    and "molten_pin (patch w) = Some \<lparr>pin_service = None\<rparr>"
    and "tracer_enabled (patch w) = tracer_enabled w"
  using assms by (simp_all add: patch_def)

lemma includeme_wrappers:
  "render_wrappers (includeme w) = (if render_wrappers w = 0 then 1 else render_wrappers w)"
  by (simp add: includeme_def Let_def)

lemma patch_app_init_enabled:
  assumes "molten_pin w = Some p" and "tracer_enabled w" and "orig args = Inr a"
  shows "patch_app_init orig args w =
     Inr (a\<lparr>router := WrapperRouter (router a),
            middleware := map WrapperMiddleware (middleware a),
            injector_components := map WrapperComponent (injector_components a),
            renderers := map WrapperRenderer (renderers a)\<rparr>)"
  using assms by (simp add: patch_app_init_def pin_enabled_def)

section \<open>The request span at entry\<close>

text \<open>
  Claim C3, as the code has it. The span of a traced request is opened before the
  wrapped application or handler runs, with the fixed tags component, span kind
  \<open>server\<close> and the measured flag. Its provisional resource is the name of the wrapped
  callable in \<open>patch_app_call\<close> and the literal \<open>404\<close> in \<open>trace_tween\<close>; neither
  function builds a resource from the method and the word \<open>unmatched\<close>.
\<close>

theorem request_span_at_entry:
  "(case app_call_prologue d cfg p wrapped environ sr w of
      (sp, sr', w') \<Rightarrow>
        sp = next_span w \<and>
        resource (spans w' sp) = func_name wrapped \<and>
        tags (spans w' sp) COMPONENT = Some (PStr (integration_name (molten cfg))) \<and>
        tags (spans w' sp) SPAN_KIND = Some (PStr SERVER) \<and>
        tags (spans w' sp) SPAN_MEASURED_KEY = Some PNone) \<and>
   (case tween_prologue d cfg st svc dt rq w of
      (sp, rq', w') \<Rightarrow>
        sp = next_span w \<and>
        resource (spans w' sp) = ''404'' \<and>
        tags (spans w' sp) COMPONENT = Some (PStr (integration_name (pyramid cfg))) \<and>
        tags (spans w' sp) SPAN_KIND = Some (PStr SERVER) \<and>
        tags (spans w' sp) SPAN_MEASURED_KEY = Some PNone)"
  by (simp add: split_def app_prologue_span app_prologue_resource app_prologue_tags
        tween_prologue_span tween_prologue_resource tween_prologue_tags)

theorem request_span_at_entry_witness:
  "resource (spans (snd (snd (app_call_prologue example_deps example_config \<lparr>pin_service = None\<rparr>
       (emit_app ''404 Not Found'') get_environ server_start_response (patch fresh_world)))) 0)
     = ''molten.app.App.__call__'' \<and>
   tags (spans (snd (snd (tween_prologue example_deps example_config no_settings ''pyramid'' True
       get_missing fresh_world))) 0) SPAN_KIND = Some (PStr SERVER)"
  using request_span_at_entry [where d = example_deps and cfg = example_config
      and p = "\<lparr>pin_service = None\<rparr>" and wrapped = "emit_app ''404 Not Found''"
      and environ = get_environ and sr = server_start_response and w = "patch fresh_world"
      and st = no_settings and svc = "''pyramid''" and dt = True and rq = get_missing]
    request_span_at_entry [where d = example_deps and cfg = example_config
      and p = "\<lparr>pin_service = None\<rparr>" and wrapped = "emit_app ''404 Not Found''"
      and environ = get_environ and sr = server_start_response and w = fresh_world
      and st = no_settings and svc = "''pyramid''" and dt = True and rq = get_missing]
  by (simp add: split_def example_worlds emit_app_def app_prologue_span tween_prologue_span)

text \<open>
  Claim C3 as the spec words it fails: at entry the resource of a GET request is not
  \<open>GET unmatched\<close>, in either integration.
\<close>

theorem provisional_resource_counterexample:
  "resource (spans (snd (snd (tween_prologue example_deps example_config no_settings ''pyramid'' True
       get_missing fresh_world))) 0) \<noteq> format2 (request_method get_missing) ''unmatched'' \<and>
   resource (spans (snd (snd (app_call_prologue example_deps example_config \<lparr>pin_service = None\<rparr>
       (emit_app ''404 Not Found'') get_environ server_start_response (patch fresh_world)))) 0)
     \<noteq> format2 (http_method get_environ) ''unmatched''"
  using tween_prologue_resource [of example_deps example_config no_settings "''pyramid''" True
      get_missing fresh_world]
    app_prologue_resource [of example_deps example_config "\<lparr>pin_service = None\<rparr>"
      "emit_app ''404 Not Found''" get_environ server_start_response "patch fresh_world"]
  by (simp add: example_worlds format2_def get_missing_def get_environ_def emit_app_def)

section \<open>Context activation and the request span\<close>

text \<open>
  Claim C9. In both entry points the distributed headers are handed to
  \<open>activate_distributed_headers\<close> before \<open>tracer.trace\<close> opens the request span: the
  tracer's log after the prologue is the log of the activation followed by the opening
  of the span, and the span's parent is the context active after the activation. When
  distributed tracing is on and the headers carry a context, that context is activated
  just before the span is opened and is the span's parent. The wrapped application
  and the handler run in the state the prologue leaves.
\<close>

theorem context_activated_before_span:
  "(case app_call_prologue d cfg p wrapped environ sr w of
      (sp, sr', w') \<Rightarrow>
        log w' = log (activate_distributed_headers d (molten cfg) (py_dict (headers environ)) None w)
                   @ [Opened sp] \<and>
        parent (spans w' sp)
          = active (activate_distributed_headers d (molten cfg) (py_dict (headers environ)) None w) \<and>
        (distributed_tracing (molten cfg) \<and>
         propagator_extract d (py_dict (headers environ)) = Some ctx \<longrightarrow>
           log w' = log w @ [DistributedHeaders (py_dict (headers environ)), Activated ctx, Opened sp] \<and>
           parent (spans w' sp) = Some ctx) \<and>
        (molten_pin w = Some p \<and> tracer_enabled w \<longrightarrow>
           fst (patch_app_call d cfg wrapped (environ, sr) kw w)
             = fst (app_call wrapped environ sr' kw w'))) \<and>
   (case tween_prologue d cfg st svc dt rq w of
      (sp, rq', w') \<Rightarrow>
        log w' = log (activate_distributed_headers d (pyramid cfg) (request_headers rq) (Some dt) w)
                   @ [Opened sp] \<and>
        parent (spans w' sp)
          = active (activate_distributed_headers d (pyramid cfg) (request_headers rq) (Some dt) w) \<and>
        (dt \<and> propagator_extract d (request_headers rq) = Some ctx' \<longrightarrow>
           log w' = log w @ [DistributedHeaders (request_headers rq), Activated ctx', Opened sp] \<and>
           parent (spans w' sp) = Some ctx') \<and>
        fst (trace_tween d cfg handler st svc dt rq w) = fst (handler rq' w'))"
proof -
  have a: "distributed_tracing (molten cfg) \<and>
         propagator_extract d (py_dict (headers environ)) = Some ctx \<Longrightarrow>
      active (activate_distributed_headers d (molten cfg) (py_dict (headers environ)) None w) = Some ctx \<and>
      log (activate_distributed_headers d (molten cfg) (py_dict (headers environ)) None w)
        = log w @ [DistributedHeaders (py_dict (headers environ)), Activated ctx]"
    using activate_present [of None "molten cfg" d "py_dict (headers environ)" ctx w] by simp
  have b: "dt \<and> propagator_extract d (request_headers rq) = Some ctx' \<Longrightarrow>
      active (activate_distributed_headers d (pyramid cfg) (request_headers rq) (Some dt) w) = Some ctx' \<and>
      log (activate_distributed_headers d (pyramid cfg) (request_headers rq) (Some dt) w)
        = log w @ [DistributedHeaders (request_headers rq), Activated ctx']"
    using activate_present [of "Some dt" "pyramid cfg" d "request_headers rq" ctx' w] by simp
  have c: "molten_pin w = Some p \<and> tracer_enabled w \<Longrightarrow>
      fst (patch_app_call d cfg wrapped (environ, sr) kw w)
        = fst (app_call wrapped environ (fst (snd (app_call_prologue d cfg p wrapped environ sr w))) kw
                (snd (snd (app_call_prologue d cfg p wrapped environ sr w))))"
    using patch_app_call_traced [of w p d cfg wrapped environ sr kw] by (simp add: Let_def)
  have e: "fst (trace_tween d cfg handler st svc dt rq w)
      = fst (handler (fst (snd (tween_prologue d cfg st svc dt rq w)))
               (snd (snd (tween_prologue d cfg st svc dt rq w))))"
    using trace_tween_cases [of d cfg st svc dt rq w
        "fst (tween_prologue d cfg st svc dt rq w)"
        "fst (snd (tween_prologue d cfg st svc dt rq w))"
        "snd (snd (tween_prologue d cfg st svc dt rq w))" handler
        "fst (handler (fst (snd (tween_prologue d cfg st svc dt rq w)))
               (snd (snd (tween_prologue d cfg st svc dt rq w))))"
        "fst (snd (handler (fst (snd (tween_prologue d cfg st svc dt rq w)))
               (snd (snd (tween_prologue d cfg st svc dt rq w)))))"
        "snd (snd (handler (fst (snd (tween_prologue d cfg st svc dt rq w)))
               (snd (snd (tween_prologue d cfg st svc dt rq w)))))"]
    by simp
  show ?thesis
    using a b c e
    by (simp add: split_def app_prologue_span app_prologue_state tween_prologue_span
          tween_prologue_state)
qed

theorem context_activated_before_span_witness:
  "log (snd (snd (app_call_prologue example_deps example_config \<lparr>pin_service = None\<rparr>
       (emit_app ''404 Not Found'') get_environ server_start_response (patch fresh_world))))
     = [DistributedHeaders [(''x-datadog-trace-id'', ''100'')], Activated example_context, Opened 0] \<and>
   parent (spans (snd (snd (tween_prologue example_deps example_config no_settings ''pyramid'' True
       get_missing fresh_world))) 0) = Some example_context"
proof -
  have m: "distributed_tracing (molten example_config) \<and>
      propagator_extract example_deps (py_dict (headers get_environ)) = Some example_context"
    by (simp add: example_config_def get_environ_def example_dict example_extract)
  have t: "True \<and> propagator_extract example_deps (request_headers get_missing) = Some example_context"
    by (simp add: get_missing_def example_extract)
  have e: "molten_pin (patch fresh_world) = Some \<lparr>pin_service = None\<rparr> \<and>
      tracer_enabled (patch fresh_world)"
    by (simp add: example_worlds)
  show ?thesis
    using m t e
      context_activated_before_span [where d = example_deps and cfg = example_config
        and p = "\<lparr>pin_service = None\<rparr>" and wrapped = "emit_app ''404 Not Found''"
        and environ = get_environ and sr = server_start_response and w = "patch fresh_world"
        and st = no_settings and svc = "''pyramid''" and dt = True and rq = get_missing
        and ctx = example_context and ctx' = example_context and kw = "[]"
        and handler = not_found_handler]
      context_activated_before_span [where d = example_deps and cfg = example_config
        and p = "\<lparr>pin_service = None\<rparr>" and wrapped = "emit_app ''404 Not Found''"
        and environ = get_environ and sr = server_start_response and w = fresh_world
        and st = no_settings and svc = "''pyramid''" and dt = True and rq = get_missing
        and ctx = example_context and ctx' = example_context and kw = "[]"
        and handler = not_found_handler]
    by (auto simp add: split_def example_worlds example_dict app_prologue_span
          tween_prologue_span get_environ_def get_missing_def)
qed

section \<open>The status line in the response callback\<close>

text \<open>
  Claim C6, as the code has it. When the wrapped response-emission callback is called
  with a status line (three positional arguments, the pin enabled), the token before
  the first space is turned into an integer when \<open>int\<close> accepts it and is kept as the
  raw string otherwise. Either way the wrapper raises nothing, opens no span, hands the
  value to \<open>set_http_meta\<close> as the status code, uses it in the resource of a span
  without a route tag, and forwards the call to the original callback with the same
  arguments. An integer is recorded as the tag \<open>http.status_code\<close>; a raw string is
  not: the tag stays as it was. The token is the part before the first space; a
  decimal numeral, with white space of \<open>int\<close> around it, parses to its value, and a
  token holding any character that is no digit, sign, underscore or such white space
  does not parse.
\<close>

theorem start_response_status_token:
  assumes "molten_pin w = Some p" and "tracer_enabled w"
  shows "(\<exists>w'. w_start_response d cfg sp rq wrapped [PStr status, hdrs, exc] kw w
                 = wrapped [PStr status, hdrs, exc] kw w' \<and>
              http_calls (spans w' sp)
                 = http_calls (spans w sp) @
                   [no_meta\<lparr>hm_status_code :=
                      (case py_int (status_token status) of
                         Some n \<Rightarrow> PInt n
                       | None \<Rightarrow> PStr (status_token status))\<rparr>] \<and>
              tags (spans w' sp) STATUS_CODE
                 = (case py_int (status_token status) of
                      Some n \<Rightarrow> Some (PStr (str_int n))
                    | None \<Rightarrow> tags (spans w sp) STATUS_CODE) \<and>
              (\<not> truthy (get_tag sp MOLTEN_ROUTE w) \<longrightarrow>
                 resource (spans w' sp)
                   = format2 (http_method rq)
                       (case py_int (status_token status) of
                          Some n \<Rightarrow> str_int n
                        | None \<Rightarrow> status_token status)) \<and>
              next_span w' = next_span w \<and> log w' = log w) \<and>
         (CHR '' '' \<notin> set tok \<longrightarrow> status_token (tok @ CHR '' '' # rest) = tok) \<and>
         ((\<forall>c\<in>set ws. is_int_space c) \<and> (\<forall>c\<in>set ws'. is_int_space c) \<and>
          length (str_nat (nat \<bar>n\<bar>)) \<le> int_max_str_digits \<longrightarrow>
            py_int (ws @ str_int n @ ws') = Some n) \<and>
         ((\<exists>c\<in>set t. \<not> is_digit c \<and> c \<noteq> CHR ''_'' \<and> c \<noteq> CHR ''+'' \<and> c \<noteq> CHR ''-'' \<and>
                      \<not> is_int_space c) \<longrightarrow>
            py_int t = None)"
proof (intro conjI impI)
  let ?w' = "set_http_meta d sp (molten cfg) (no_meta\<lparr>hm_status_code := parsed_code status\<rparr>)
          (if \<not> truthy (get_tag sp MOLTEN_ROUTE w)
           then set_resource sp (format2 (http_method rq) (py_str (parsed_code status))) w
           else w)"
  have m: "hm_status_code (no_meta\<lparr>hm_status_code := parsed_code status\<rparr>) = parsed_code status"
    by simp
  have "w_start_response d cfg sp rq wrapped [PStr status, hdrs, exc] kw w
          = wrapped [PStr status, hdrs, exc] kw ?w'"
    using assms by (rule shim_traced)
  moreover have "http_calls (spans ?w' sp)
      = http_calls (spans w sp) @ [no_meta\<lparr>hm_status_code := parsed_code status\<rparr>]"
    by (rule shim_state)
  moreover have "tags (spans ?w' sp) STATUS_CODE
      = (case py_int (status_token status) of
           Some n \<Rightarrow> Some (PStr (str_int n))
         | None \<Rightarrow> tags (spans w sp) STATUS_CODE)"
    unfolding shim_state(3) m parsed_code_int
    by (simp add: parsed_code_def split: option.splits)
  moreover have "\<not> truthy (get_tag sp MOLTEN_ROUTE w) \<longrightarrow>
      resource (spans ?w' sp)
        = format2 (http_method rq)
            (case py_int (status_token status) of
               Some n \<Rightarrow> str_int n
             | None \<Rightarrow> status_token status)"
    unfolding shim_state(1) by (simp add: parsed_code_def split: option.splits)
  moreover have "next_span ?w' = next_span w" by (rule shim_state)
  moreover have "log ?w' = log w" by (rule shim_state)
  ultimately show "\<exists>w'. w_start_response d cfg sp rq wrapped [PStr status, hdrs, exc] kw w
                 = wrapped [PStr status, hdrs, exc] kw w' \<and>
              http_calls (spans w' sp)
                 = http_calls (spans w sp) @
                   [no_meta\<lparr>hm_status_code :=
                      (case py_int (status_token status) of
                         Some n \<Rightarrow> PInt n
                       | None \<Rightarrow> PStr (status_token status))\<rparr>] \<and>
              tags (spans w' sp) STATUS_CODE
                 = (case py_int (status_token status) of
                      Some n \<Rightarrow> Some (PStr (str_int n))
                    | None \<Rightarrow> tags (spans w sp) STATUS_CODE) \<and>
              (\<not> truthy (get_tag sp MOLTEN_ROUTE w) \<longrightarrow>
                 resource (spans w' sp)
                   = format2 (http_method rq)
                       (case py_int (status_token status) of
                          Some n \<Rightarrow> str_int n
                        | None \<Rightarrow> status_token status)) \<and>
              next_span w' = next_span w \<and> log w' = log w"
    unfolding parsed_code_def by blast
next
  assume "CHR '' '' \<notin> set tok"
  then have "takeWhile (\<lambda>c. c \<noteq> CHR '' '') (tok @ CHR '' '' # rest) = tok"
    and "dropWhile (\<lambda>c. c \<noteq> CHR '' '') (tok @ CHR '' '' # rest) = CHR '' '' # rest"
    by (induction tok) auto
  then show "status_token (tok @ CHR '' '' # rest) = tok"
    by (simp add: status_token_def partition_str_def)
next
  assume "(\<forall>c\<in>set ws. is_int_space c) \<and> (\<forall>c\<in>set ws'. is_int_space c) \<and>
          length (str_nat (nat \<bar>n\<bar>)) \<le> int_max_str_digits"
  then show "py_int (ws @ str_int n @ ws') = Some n"
    by (simp add: py_int_str_int)
next
  assume "\<exists>c\<in>set t. \<not> is_digit c \<and> c \<noteq> CHR ''_'' \<and> c \<noteq> CHR ''+'' \<and> c \<noteq> CHR ''-'' \<and>
                      \<not> is_int_space c"
  then show "py_int t = None"
    using py_int_bad_char by blast
qed

theorem start_response_status_token_witness:
  "(\<exists>w'. w_start_response example_deps example_config 0 get_environ server_start_response
           [PStr ''404 Not Found'', PObj 1, PNone] [] (patch fresh_world)
         = (Inr (PObj 7), w') \<and>
        http_calls (spans w' 0) = [no_meta\<lparr>hm_status_code := PInt 404\<rparr>] \<and>
        tags (spans w' 0) STATUS_CODE = Some (PStr ''404'') \<and>
        resource (spans w' 0) = ''GET 404'') \<and>
   status_token (''404'' @ CHR '' '' # ''Not Found'') = ''404'' \<and>
   py_int ([CHR 0x09] @ str_int 404 @ [CHR 0x0A]) = Some 404 \<and>
   py_int [CHR 0x1F, CHR ''2'', CHR ''0'', CHR ''0''] = None"
proof -
  note T = start_response_status_token [where w = "patch fresh_world"
      and p = "\<lparr>pin_service = None\<rparr>" and d = example_deps and cfg = example_config and sp = 0
      and rq = get_environ and wrapped = server_start_response and status = "''404 Not Found''"
      and hdrs = "PObj 1" and exc = PNone and kw = "[]" and tok = "''404''"
      and rest = "''Not Found''" and ws = "[CHR 0x09]" and ws' = "[CHR 0x0A]" and n = 404
      and t = "[CHR 0x1F, CHR ''2'', CHR ''0'', CHR ''0'']"]
  have h1: "molten_pin (patch fresh_world) = Some \<lparr>pin_service = None\<rparr>"
    "tracer_enabled (patch fresh_world)"
    by (simp_all add: example_worlds)
  have h2: "CHR '' '' \<notin> set ''404''" by simp
  have h3: "(\<forall>c\<in>set [CHR 0x09]. is_int_space c) \<and> (\<forall>c\<in>set [CHR 0x0A]. is_int_space c) \<and>
      length (str_nat (nat \<bar>404\<bar>)) \<le> int_max_str_digits"
    by code_simp
  have h4: "\<exists>c\<in>set [CHR 0x1F, CHR ''2'', CHR ''0'', CHR ''0'']. \<not> is_digit c \<and> c \<noteq> CHR ''_'' \<and>
      c \<noteq> CHR ''+'' \<and> c \<noteq> CHR ''-'' \<and> \<not> is_int_space c"
    by code_simp
  have r: "\<not> truthy (get_tag 0 MOLTEN_ROUTE (patch fresh_world))"
    by (simp add: example_worlds get_tag_def blank_span_def or_none_def)
  have "\<exists>w'. w_start_response example_deps example_config 0 get_environ server_start_response
           [PStr ''404 Not Found'', PObj 1, PNone] [] (patch fresh_world)
         = (Inr (PObj 7), w') \<and>
        http_calls (spans w' 0) = [no_meta\<lparr>hm_status_code := PInt 404\<rparr>] \<and>
        tags (spans w' 0) STATUS_CODE = Some (PStr ''404'') \<and>
        resource (spans w' 0) = ''GET 404'' \<and> next_span w' = 0 \<and> log w' = []"
    using T [OF h1, THEN conjunct1] r
    by (simp add: example_worlds example_tokens server_start_response_def blank_span_def
          format2_def get_environ_def)
  then have a: "\<exists>w'. w_start_response example_deps example_config 0 get_environ
           server_start_response [PStr ''404 Not Found'', PObj 1, PNone] [] (patch fresh_world)
         = (Inr (PObj 7), w') \<and>
        http_calls (spans w' 0) = [no_meta\<lparr>hm_status_code := PInt 404\<rparr>] \<and>
        tags (spans w' 0) STATUS_CODE = Some (PStr ''404'') \<and>
        resource (spans w' 0) = ''GET 404''"
    by blast
  from T [OF h1] h2 h3 h4
  have "status_token (''404'' @ CHR '' '' # ''Not Found'') = ''404''"
    and "py_int ([CHR 0x09] @ str_int 404 @ [CHR 0x0A]) = Some 404"
    and "py_int [CHR 0x1F, CHR ''2'', CHR ''0'', CHR ''0''] = None"
    by blast+
  with a show ?thesis by blast
qed

text \<open>
  Claim C6 as the spec words it fails at the recording: for the status line
  \<open>4x4 Not Found\<close> the call is forwarded and the raw token goes into the resource,
  but no status-code tag is set from it.
\<close>

theorem raw_status_not_recorded_counterexample:
  "fst (w_start_response example_deps example_config 0 get_environ server_start_response
          [PStr ''4x4 Not Found'', PObj 1, PNone] [] (patch fresh_world)) = Inr (PObj 7) \<and>
   resource (spans (snd (w_start_response example_deps example_config 0 get_environ
          server_start_response [PStr ''4x4 Not Found'', PObj 1, PNone] [] (patch fresh_world))) 0)
     = ''GET 4x4'' \<and>
   tags (spans (snd (w_start_response example_deps example_config 0 get_environ
          server_start_response [PStr ''4x4 Not Found'', PObj 1, PNone] [] (patch fresh_world))) 0)
       STATUS_CODE = None"
proof -
  have h: "molten_pin (patch fresh_world) = Some \<lparr>pin_service = None\<rparr>"
    "tracer_enabled (patch fresh_world)"
    by (simp_all add: example_worlds)
  have c: "parsed_code ''4x4 Not Found'' = PStr ''4x4''"
    by (simp add: parsed_code_def example_tokens)
  have r: "\<not> truthy (get_tag 0 MOLTEN_ROUTE (patch fresh_world))"
    by (simp add: example_worlds get_tag_def blank_span_def or_none_def)
  show ?thesis
    unfolding shim_traced [OF h] server_start_response_def
    using r
    by (simp add: c set_http_meta_fields span_ops on_span_fields example_tokens example_worlds
          blank_span_def format2_def get_environ_def)
qed

section \<open>The resource of a request whose route never resolves\<close>

text \<open>
  Claim C1, as the code has it. In molten, when the response callback fires while the
  span carries no route tag, the resource becomes the method followed by the status
  code; for an application that resolves no route and emits one status line, that is
  the resource the span is closed with. In pyramid, a request without a matched route
  keeps the resource it has when the handler is done: the \<open>finally\<close> block does not
  write it, so it is the literal \<open>404\<close> given at entry, with no method and whatever
  the status code.
\<close>

theorem unresolved_route_resource:
  "(molten_pin w = Some p \<and> tracer_enabled w \<and> \<not> truthy (get_tag sp MOLTEN_ROUTE w) \<longrightarrow>
      (\<exists>w'. w_start_response d cfg sp mrq wrapped [PStr status, hdrs, exc] kw w
               = wrapped [PStr status, hdrs, exc] kw w' \<and>
            resource (spans w' sp) = format2 (http_method mrq) (py_str (parsed_code status)))) \<and>
   (molten_pin w = Some p \<and> tracer_enabled w \<longrightarrow>
      resource (spans (snd (patch_app_call d cfg (emit_app status)
          (environ, server_start_response) kw w)) (next_span w))
        = format2 (http_method environ) (py_str (parsed_code status))) \<and>
   (tween_prologue d cfg st svc dt rq tw = (tsp, rq_in, w_in) \<and> handler rq_in w_in = (r, rq_out, w_out) \<and>
    matched_route rq_out = None \<longrightarrow>
      resource (spans w_in tsp) = ''404'' \<and>
      resource (spans (snd (snd (trace_tween d cfg handler st svc dt rq tw))) tsp)
        = resource (spans w_out tsp))"
proof (intro conjI impI)
  assume a: "molten_pin w = Some p \<and> tracer_enabled w \<and> \<not> truthy (get_tag sp MOLTEN_ROUTE w)"
  let ?w' = "set_http_meta d sp (molten cfg) (no_meta\<lparr>hm_status_code := parsed_code status\<rparr>)
          (if \<not> truthy (get_tag sp MOLTEN_ROUTE w)
           then set_resource sp (format2 (http_method mrq) (py_str (parsed_code status))) w
           else w)"
  have "w_start_response d cfg sp mrq wrapped [PStr status, hdrs, exc] kw w
          = wrapped [PStr status, hdrs, exc] kw ?w'"
    using a shim_traced [of w p d cfg sp mrq wrapped status hdrs exc kw] by simp
  moreover have "resource (spans ?w' sp) = format2 (http_method mrq) (py_str (parsed_code status))"
    using a by (simp add: span_ops on_span_fields set_http_meta_fields)
  ultimately show "\<exists>w'. w_start_response d cfg sp mrq wrapped [PStr status, hdrs, exc] kw w
               = wrapped [PStr status, hdrs, exc] kw w' \<and>
            resource (spans w' sp) = format2 (http_method mrq) (py_str (parsed_code status))"
    by blast
next
  assume a: "molten_pin w = Some p \<and> tracer_enabled w"
  show "resource (spans (snd (patch_app_call d cfg (emit_app status)
          (environ, server_start_response) kw w)) (next_span w))
        = format2 (http_method environ) (py_str (parsed_code status))"
    using a emit_app_call [of w p d cfg status environ kw]
    by (simp add: span_exit_fields span_ops on_span_fields set_http_meta_fields)
next
  assume a: "tween_prologue d cfg st svc dt rq tw = (tsp, rq_in, w_in) \<and>
      handler rq_in w_in = (r, rq_out, w_out) \<and> matched_route rq_out = None"
  show "resource (spans w_in tsp) = ''404''"
    using a tween_prologue_resource [of d cfg st svc dt rq tw]
      tween_prologue_span [of d cfg st svc dt rq tw] by simp
  show "resource (spans (snd (snd (trace_tween d cfg handler st svc dt rq tw))) tsp)
        = resource (spans w_out tsp)"
    using a tween_final_span(3) [of d cfg st svc dt rq tw tsp rq_in w_in handler r rq_out w_out] by simp
qed

theorem unresolved_route_resource_witness:
  "(\<exists>w'. w_start_response example_deps example_config 0 get_environ server_start_response
            [PStr ''404 Not Found'', PObj 1, PNone] [] (patch fresh_world) = (Inr (PObj 7), w') \<and>
         resource (spans w' 0) = ''GET 404'') \<and>
   resource (spans (snd (patch_app_call example_deps example_config (emit_app ''404 Not Found'')
       (get_environ, server_start_response) [] (patch fresh_world))) 0) = ''GET 404'' \<and>
   resource (spans (snd (snd (trace_tween example_deps example_config not_found_handler no_settings
       ''pyramid'' True get_missing fresh_world))) 0) = ''404''"
proof -
  let ?w1 = "snd (snd (tween_prologue example_deps example_config no_settings ''pyramid'' True
       get_missing fresh_world))"
  let ?rq1 = "get_missing\<lparr>datadog_tracer := Some the_tracer\<rparr>"
  note T = unresolved_route_resource [where w = "patch fresh_world" and p = "\<lparr>pin_service = None\<rparr>"
      and sp = 0 and cfg = example_config and mrq = get_environ and wrapped = server_start_response
      and status = "''404 Not Found''" and hdrs = "PObj 1" and exc = PNone and kw = "[]"
      and d = example_deps and environ = get_environ and st = no_settings and svc = "''pyramid''"
      and dt = True and rq = get_missing and tw = fresh_world and tsp = 0 and rq_in = ?rq1 and w_in = ?w1
      and handler = not_found_handler
      and r = "Inr (Some \<lparr>status_code = 404, resp_headers = []\<rparr>)" and rq_out = ?rq1 and w_out = ?w1]
  have h1: "molten_pin (patch fresh_world) = Some \<lparr>pin_service = None\<rparr> \<and>
      tracer_enabled (patch fresh_world) \<and> \<not> truthy (get_tag 0 MOLTEN_ROUTE (patch fresh_world))"
    by (simp add: example_worlds get_tag_def blank_span_def or_none_def)
  have code: "py_str (parsed_code ''404 Not Found'') = ''404''"
    by (simp add: parsed_code_def example_tokens)
  have m: "http_method get_environ = ''GET''" by (simp add: get_environ_def)
  have h3: "tween_prologue example_deps example_config no_settings ''pyramid'' True get_missing
        fresh_world = (0, ?rq1, ?w1) \<and>
      not_found_handler ?rq1 ?w1
        = (Inr (Some \<lparr>status_code = 404, resp_headers = []\<rparr>), ?rq1, ?w1) \<and>
      matched_route ?rq1 = None"
    using tween_prologue_triple [of example_deps example_config no_settings "''pyramid''" True
        get_missing fresh_world]
    by (simp add: example_worlds example_handlers get_missing_def)
  have e: "\<exists>w'. w_start_response example_deps example_config 0 get_environ server_start_response
            [PStr ''404 Not Found'', PObj 1, PNone] [] (patch fresh_world)
              = server_start_response [PStr ''404 Not Found'', PObj 1, PNone] [] w' \<and>
         resource (spans w' 0) = ''GET 404''"
    using T h1 by (simp add: code m format2_def)
  have f: "resource (spans (snd (patch_app_call example_deps example_config (emit_app ''404 Not Found'')
       (get_environ, server_start_response) [] (patch fresh_world))) 0) = ''GET 404''"
    using T h1 by (simp add: code m format2_def example_worlds)
  have g: "resource (spans (snd (snd (trace_tween example_deps example_config not_found_handler
       no_settings ''pyramid'' True get_missing fresh_world))) 0) = ''404''"
    using T h3 by simp
  from e have "\<exists>w'. w_start_response example_deps example_config 0 get_environ server_start_response
            [PStr ''404 Not Found'', PObj 1, PNone] [] (patch fresh_world) = (Inr (PObj 7), w') \<and>
         resource (spans w' 0) = ''GET 404''"
    by (simp add: server_start_response_def)
  with f g show ?thesis by blast
qed

text \<open>
  Claim C1 as the spec words it fails in pyramid: a GET request to an undefined path
  that is answered with status 404 is closed with the resource \<open>404\<close>, not
  \<open>GET 404\<close>.
\<close>

theorem unresolved_route_counterexample:
  "hm_status_code (last (http_calls (spans (snd (snd (trace_tween example_deps example_config
       not_found_handler no_settings ''pyramid'' True get_missing fresh_world))) 0))) = PInt 404 \<and>
   resource (spans (snd (snd (trace_tween example_deps example_config not_found_handler no_settings
       ''pyramid'' True get_missing fresh_world))) 0)
     \<noteq> format2 (request_method get_missing) (str_int 404)"
proof -
  let ?w1 = "snd (snd (tween_prologue example_deps example_config no_settings ''pyramid'' True
       get_missing fresh_world))"
  let ?rq1 = "get_missing\<lparr>datadog_tracer := Some the_tracer\<rparr>"
  have p: "tween_prologue example_deps example_config no_settings ''pyramid'' True get_missing
        fresh_world = (0, ?rq1, ?w1)"
    using tween_prologue_triple [of example_deps example_config no_settings "''pyramid''" True
        get_missing fresh_world]
    by (simp add: example_worlds)
  have h: "not_found_handler ?rq1 ?w1
        = (Inr (Some \<lparr>status_code = 404, resp_headers = []\<rparr>), ?rq1, ?w1)"
    by (rule example_handlers)
  have r: "resource (spans ?w1 0) = ''404''"
    using tween_prologue_resource [of example_deps example_config no_settings "''pyramid''" True
        get_missing fresh_world] by (simp add: example_worlds)
  have "resource (spans (snd (snd (trace_tween example_deps example_config not_found_handler
       no_settings ''pyramid'' True get_missing fresh_world))) 0) = ''404''"
    using tween_final_span(3) [of example_deps example_config no_settings "''pyramid''" True
        get_missing fresh_world 0 ?rq1 ?w1 not_found_handler
        "Inr (Some \<lparr>status_code = 404, resp_headers = []\<rparr>)" ?rq1 ?w1] p h r
    by (simp add: get_missing_def)
  moreover have "hm_status_code (last (http_calls (spans (snd (snd (trace_tween example_deps
       example_config not_found_handler no_settings ''pyramid'' True get_missing fresh_world))) 0)))
       = PInt 404"
    using tween_final_span(5) [of example_deps example_config no_settings "''pyramid''" True
        get_missing fresh_world 0 ?rq1 ?w1 not_found_handler
        "Inr (Some \<lparr>status_code = 404, resp_headers = []\<rparr>)" ?rq1 ?w1] p h
    by simp
  ultimately show ?thesis
    by (simp add: format2_def get_missing_def example_tokens)
qed

section \<open>The resource of a request whose route resolves\<close>

text \<open>
  Claim C2. In pyramid, a request that leaves the handler with a matched route has its
  resource set to the method followed by the route name, and the tag
  \<open>pyramid.route.name\<close> set to the route name, on every way out of the handler. In
  molten, the wrapper of the response callback leaves the resource and the tags of a
  span alone, the status-code tag apart, when the span carries a route tag (a
  non-empty one, by Python's truth test): the resource set at route resolution is not
  replaced by the one derived from the status.
\<close>

theorem resolved_route_precedence:
  "(tween_prologue d cfg st svc dt rq tw = (tsp, rq_in, w_in) \<and>
    handler rq_in w_in = (r, rq_out, w_out) \<and> matched_route rq_out = Some rt \<longrightarrow>
      resource (spans (snd (snd (trace_tween d cfg handler st svc dt rq tw))) tsp)
        = format2 (request_method rq_out) (route_name rt) \<and>
      tags (spans (snd (snd (trace_tween d cfg handler st svc dt rq tw))) tsp) ''pyramid.route.name''
        = Some (PStr (route_name rt))) \<and>
   (molten_pin w = Some p \<and> tracer_enabled w \<and> truthy (get_tag sp MOLTEN_ROUTE w) \<longrightarrow>
      (\<exists>w'. w_start_response d cfg sp mrq wrapped [PStr status, hdrs, exc] kw w
               = wrapped [PStr status, hdrs, exc] kw w' \<and>
            resource (spans w' sp) = resource (spans w sp) \<and>
            tags (spans w' sp) MOLTEN_ROUTE = tags (spans w sp) MOLTEN_ROUTE \<and>
            (\<forall>k. k \<noteq> STATUS_CODE \<longrightarrow> tags (spans w' sp) k = tags (spans w sp) k)))"
proof (intro conjI impI)
  assume a: "tween_prologue d cfg st svc dt rq tw = (tsp, rq_in, w_in) \<and>
    handler rq_in w_in = (r, rq_out, w_out) \<and> matched_route rq_out = Some rt"
  show "resource (spans (snd (snd (trace_tween d cfg handler st svc dt rq tw))) tsp)
        = format2 (request_method rq_out) (route_name rt)"
    using a tween_final_span(3) [of d cfg st svc dt rq tw tsp rq_in w_in handler r rq_out w_out]
    by simp
  show "tags (spans (snd (snd (trace_tween d cfg handler st svc dt rq tw))) tsp) ''pyramid.route.name''
        = Some (PStr (route_name rt))"
    using a tween_final_span(4) [of d cfg st svc dt rq tw tsp rq_in w_in handler r rq_out w_out
        "''pyramid.route.name''"]
    by (simp add: STATUS_CODE_def)
next
  assume a: "molten_pin w = Some p \<and> tracer_enabled w \<and> truthy (get_tag sp MOLTEN_ROUTE w)"
  let ?w' = "set_http_meta d sp (molten cfg) (no_meta\<lparr>hm_status_code := parsed_code status\<rparr>)
          (if \<not> truthy (get_tag sp MOLTEN_ROUTE w)
           then set_resource sp (format2 (http_method mrq) (py_str (parsed_code status))) w
           else w)"
  have "w_start_response d cfg sp mrq wrapped [PStr status, hdrs, exc] kw w
          = wrapped [PStr status, hdrs, exc] kw ?w'"
    using a shim_traced [of w p d cfg sp mrq wrapped status hdrs exc kw] by simp
  moreover have "resource (spans ?w' sp) = resource (spans w sp)"
    using a by (simp add: span_ops on_span_fields set_http_meta_fields)
  moreover have t: "\<forall>k. k \<noteq> STATUS_CODE \<longrightarrow> tags (spans ?w' sp) k = tags (spans w sp) k"
    using a by (simp add: span_ops on_span_fields set_http_meta_fields split: option.splits)
  moreover from t have "tags (spans ?w' sp) MOLTEN_ROUTE = tags (spans w sp) MOLTEN_ROUTE"
    using keys_distinct by metis
  ultimately show "\<exists>w'. w_start_response d cfg sp mrq wrapped [PStr status, hdrs, exc] kw w
               = wrapped [PStr status, hdrs, exc] kw w' \<and>
            resource (spans w' sp) = resource (spans w sp) \<and>
            tags (spans w' sp) MOLTEN_ROUTE = tags (spans w sp) MOLTEN_ROUTE \<and>
            (\<forall>k. k \<noteq> STATUS_CODE \<longrightarrow> tags (spans w' sp) k = tags (spans w sp) k)"
    by blast
qed

theorem resolved_route_precedence_witness:
  "resource (spans (snd (snd (trace_tween example_deps example_config routed_handler no_settings
       ''pyramid'' True get_missing fresh_world))) 0) = ''GET items'' \<and>
   tags (spans (snd (snd (trace_tween example_deps example_config routed_handler no_settings
       ''pyramid'' True get_missing fresh_world))) 0) ''pyramid.route.name'' = Some (PStr ''items'') \<and>
   (\<exists>w'. w_start_response example_deps example_config 0 get_environ server_start_response
            [PStr ''200 OK'', PObj 1, PNone] [] routed_world = (Inr (PObj 7), w') \<and>
         resource (spans w' 0) = ''GET /items/{id}'')"
proof -
  let ?w1 = "snd (snd (tween_prologue example_deps example_config no_settings ''pyramid'' True
       get_missing fresh_world))"
  let ?rq1 = "get_missing\<lparr>datadog_tracer := Some the_tracer\<rparr>"
  let ?rq2 = "?rq1\<lparr>matched_route := Some items_route\<rparr>"
  note T = resolved_route_precedence [where w = routed_world and p = "\<lparr>pin_service = None\<rparr>"
      and sp = 0 and cfg = example_config and mrq = get_environ and wrapped = server_start_response
      and status = "''200 OK''" and hdrs = "PObj 1" and exc = PNone and kw = "[]"
      and d = example_deps and st = no_settings and svc = "''pyramid''"
      and dt = True and rq = get_missing and tw = fresh_world and tsp = 0 and rq_in = ?rq1
      and w_in = ?w1 and handler = routed_handler
      and r = "Inr (Some \<lparr>status_code = 200, resp_headers = []\<rparr>)" and rq_out = ?rq2
      and w_out = ?w1 and rt = items_route]
  have h1: "tween_prologue example_deps example_config no_settings ''pyramid'' True get_missing
        fresh_world = (0, ?rq1, ?w1) \<and>
      routed_handler ?rq1 ?w1 = (Inr (Some \<lparr>status_code = 200, resp_headers = []\<rparr>), ?rq2, ?w1) \<and>
      matched_route ?rq2 = Some items_route"
    using tween_prologue_triple [of example_deps example_config no_settings "''pyramid''" True
        get_missing fresh_world]
    by (simp add: example_worlds example_handlers)
  have h2: "molten_pin routed_world = Some \<lparr>pin_service = None\<rparr> \<and> tracer_enabled routed_world \<and>
      truthy (get_tag 0 MOLTEN_ROUTE routed_world)"
    by (simp add: routed_world_facts)
  have a: "resource (spans (snd (snd (trace_tween example_deps example_config routed_handler
       no_settings ''pyramid'' True get_missing fresh_world))) 0) = ''GET items''"
    using T h1 by (simp add: format2_def items_route_def get_missing_def)
  have b: "tags (spans (snd (snd (trace_tween example_deps example_config routed_handler
       no_settings ''pyramid'' True get_missing fresh_world))) 0) ''pyramid.route.name''
       = Some (PStr ''items'')"
    using T h1 by (simp add: items_route_def)
  have "\<exists>w'. w_start_response example_deps example_config 0 get_environ server_start_response
            [PStr ''200 OK'', PObj 1, PNone] [] routed_world
              = server_start_response [PStr ''200 OK'', PObj 1, PNone] [] w' \<and>
         resource (spans w' 0) = resource (spans routed_world 0) \<and>
         tags (spans w' 0) MOLTEN_ROUTE = tags (spans routed_world 0) MOLTEN_ROUTE \<and>
         (\<forall>k. k \<noteq> STATUS_CODE \<longrightarrow> tags (spans w' 0) k = tags (spans routed_world 0) k)"
    using T h2 by simp
  then have "\<exists>w'. w_start_response example_deps example_config 0 get_environ server_start_response
            [PStr ''200 OK'', PObj 1, PNone] [] routed_world = (Inr (PObj 7), w') \<and>
         resource (spans w' 0) = ''GET /items/{id}''"
    by (auto simp add: server_start_response_def routed_world_facts)
  with a b show ?thesis by blast
qed

section \<open>Exceptions of the request handler\<close>

text \<open>
  Claim C4, as the code has it. When the handler wrapped by \<open>trace_tween\<close> raises a
  pyramid \<open>HTTPException\<close>, the tween raises that same exception, and the metadata it
  records carry the exception's status code and headers as the response's. The
  \<open>finally\<close> block marks the span as errored only through \<open>set_http_meta\<close>, for a
  server-error status; but the exception leaves the \<open>with tracer.trace(...)\<close> block
  of the tween, and the span is closed marked as errored, whatever the status.
\<close>

theorem handled_http_exception:
  assumes "tween_prologue d cfg st svc dt rq w = (sp, rq_in, w_in)"
    and "handler rq_in w_in = (Inl (HTTPException e), rq_out, w_out)"
  shows "fst (trace_tween d cfg handler st svc dt rq w) = Inl (HTTPException e) \<and>
         http_calls (spans (snd (snd (trace_tween d cfg handler st svc dt rq w))) sp)
           = http_calls (spans w_out sp) @
             [\<lparr>hm_method = Some (request_method rq_out), hm_url = Some (path_url rq_out),
               hm_status_code = PInt (status_code e),
               hm_query = Some (query_string rq_out),
               hm_request_headers = Some (request_headers rq_out),
               hm_response_headers = Some (resp_headers e),
               hm_route = map_option route_pattern (matched_route rq_out)\<rparr>] \<and>
         tags (spans (snd (snd (trace_tween d cfg handler st svc dt rq w))) sp) STATUS_CODE
           = Some (PStr (str_int (status_code e))) \<and>
         (\<exists>wm. snd (snd (trace_tween d cfg handler st svc dt rq w))
                  = span_exit sp (Some (HTTPException e)) wm \<and>
               error (spans wm sp)
                  = (error (spans w_out sp) \<or> is_error_code d (status_code e))) \<and>
         \<not> error (spans w_in sp) \<and>
         error (spans (snd (snd (trace_tween d cfg handler st svc dt rq w))) sp) \<and>
         finished (spans (snd (snd (trace_tween d cfg handler st svc dt rq w))) sp)"
proof -
  note F = tween_final_span [of d cfg st svc dt rq w sp rq_in w_in handler
      "Inl (HTTPException e)" rq_out w_out, OF assms]
  have n: "\<not> error (spans w_in sp)"
    using assms(1) tween_prologue_state(3) [of d cfg st svc dt rq w]
      tween_prologue_span [of d cfg st svc dt rq w] by simp
  have "\<exists>wm. snd (snd (trace_tween d cfg handler st svc dt rq w))
        = span_exit sp (Some (HTTPException e)) wm \<and>
      http_calls (spans wm sp)
        = http_calls (spans (snd (snd (trace_tween d cfg handler st svc dt rq w))) sp) \<and>
      tags (spans wm sp) = tags (spans (snd (snd (trace_tween d cfg handler st svc dt rq w))) sp) \<and>
      finished (spans wm sp) = finished (spans w_out sp) \<and>
      error (spans wm sp) = (error (spans w_out sp) \<or> is_error_code d (status_code e))"
    using trace_tween_exit [of d cfg st svc dt rq w sp rq_in w_in handler
        "Inl (HTTPException e)" rq_out w_out, OF assms]
    by (simp add: raised_def)
  then obtain wm where wm: "snd (snd (trace_tween d cfg handler st svc dt rq w))
        = span_exit sp (Some (HTTPException e)) wm"
      "error (spans wm sp) = (error (spans w_out sp) \<or> is_error_code d (status_code e))"
    by blast
  have t: "tags (spans (snd (snd (trace_tween d cfg handler st svc dt rq w))) sp) STATUS_CODE
      = Some (PStr (str_int (status_code e)))"
    using trace_tween_cases [of d cfg st svc dt rq w sp rq_in w_in handler
        "Inl (HTTPException e)" rq_out w_out, OF assms]
    by (simp add: span_exit_fields tween_finally_fields)
  have x: "\<exists>wm. snd (snd (trace_tween d cfg handler st svc dt rq w))
                  = span_exit sp (Some (HTTPException e)) wm \<and>
               error (spans wm sp)
                  = (error (spans w_out sp) \<or> is_error_code d (status_code e))"
    using wm by blast
  from F(1,5,6,7) n t x show ?thesis
    by (simp add: raised_def)
qed

theorem handled_http_exception_witness:
  "fst (trace_tween example_deps example_config redirect_handler no_settings ''pyramid'' True
       get_missing fresh_world)
     = Inl (HTTPException \<lparr>status_code = 302, resp_headers = [(''Location'', ''/'')]\<rparr>) \<and>
   hm_status_code (last (http_calls (spans (snd (snd (trace_tween example_deps example_config
       redirect_handler no_settings ''pyramid'' True get_missing fresh_world))) 0))) = PInt 302 \<and>
   hm_response_headers (last (http_calls (spans (snd (snd (trace_tween example_deps example_config
       redirect_handler no_settings ''pyramid'' True get_missing fresh_world))) 0)))
     = Some [(''Location'', ''/'')] \<and>
   tags (spans (snd (snd (trace_tween example_deps example_config redirect_handler no_settings
       ''pyramid'' True get_missing fresh_world))) 0) STATUS_CODE = Some (PStr ''302'') \<and>
   finished (spans (snd (snd (trace_tween example_deps example_config redirect_handler
       no_settings ''pyramid'' True get_missing fresh_world))) 0)"
proof -
  let ?w1 = "snd (snd (tween_prologue example_deps example_config no_settings ''pyramid'' True
       get_missing fresh_world))"
  let ?rq1 = "get_missing\<lparr>datadog_tracer := Some the_tracer\<rparr>"
  let ?e = "\<lparr>status_code = 302, resp_headers = [(''Location'', ''/'')]\<rparr>"
  have p: "tween_prologue example_deps example_config no_settings ''pyramid'' True get_missing
        fresh_world = (0, ?rq1, ?w1)"
    using tween_prologue_triple [of example_deps example_config no_settings "''pyramid''" True
        get_missing fresh_world]
    by (simp add: example_worlds)
  have h: "redirect_handler ?rq1 ?w1 = (Inl (HTTPException ?e), ?rq1, ?w1)"
    by (rule example_handlers)
  show ?thesis
    using handled_http_exception [of example_deps example_config no_settings "''pyramid''" True
        get_missing fresh_world 0 ?rq1 ?w1 redirect_handler ?e ?rq1 ?w1, OF p h]
    by (simp add: example_tokens)
qed

text \<open>
  Claim C4 as the spec words it fails at the error mark: a redirect raised by the
  handler is raised again by the tween, and the span it leaves is marked as errored.
\<close>

theorem handled_http_exception_counterexample:
  "fst (trace_tween example_deps example_config redirect_handler no_settings ''pyramid'' True
       get_missing fresh_world)
     = Inl (HTTPException \<lparr>status_code = 302, resp_headers = [(''Location'', ''/'')]\<rparr>) \<and>
   error (spans (snd (snd (trace_tween example_deps example_config redirect_handler no_settings
       ''pyramid'' True get_missing fresh_world))) 0)"
proof -
  let ?w1 = "snd (snd (tween_prologue example_deps example_config no_settings ''pyramid'' True
       get_missing fresh_world))"
  let ?rq1 = "get_missing\<lparr>datadog_tracer := Some the_tracer\<rparr>"
  let ?e = "\<lparr>status_code = 302, resp_headers = [(''Location'', ''/'')]\<rparr>"
  have p: "tween_prologue example_deps example_config no_settings ''pyramid'' True get_missing
        fresh_world = (0, ?rq1, ?w1)"
    using tween_prologue_triple [of example_deps example_config no_settings "''pyramid''" True
        get_missing fresh_world]
    by (simp add: example_worlds)
  have h: "redirect_handler ?rq1 ?w1 = (Inl (HTTPException ?e), ?rq1, ?w1)"
    by (rule example_handlers)
  show ?thesis
    using tween_final_span(1,6) [of example_deps example_config no_settings "''pyramid''" True
        get_missing fresh_world 0 ?rq1 ?w1 redirect_handler "Inl (HTTPException ?e)" ?rq1 ?w1,
        OF p h]
    by (simp add: raised_def)
qed

text \<open>
  Claim C5. When the handler raises an exception that is no \<open>HTTPException\<close>, the
  tween raises that same exception; before the span is closed it records the method,
  the URL, the query string and the request headers with the status code 500 and no
  response headers. The status code 500 becomes the status-code tag, and the span is
  closed marked as errored.
\<close>

theorem unhandled_exception:
  assumes "tween_prologue d cfg st svc dt rq w = (sp, rq_in, w_in)"
    and "handler rq_in w_in = (Inl x, rq_out, w_out)"
    and "\<not> is_http_exception x"
  shows "fst (trace_tween d cfg handler st svc dt rq w) = Inl x \<and>
         (\<exists>wm. snd (snd (trace_tween d cfg handler st svc dt rq w)) = span_exit sp (Some x) wm \<and>
            finished (spans wm sp) = finished (spans w_out sp) \<and>
            http_calls (spans wm sp)
              = http_calls (spans w_out sp) @
                [\<lparr>hm_method = Some (request_method rq_out), hm_url = Some (path_url rq_out),
                  hm_status_code = PInt 500,
                  hm_query = Some (query_string rq_out),
                  hm_request_headers = Some (request_headers rq_out),
                  hm_response_headers = None,
                  hm_route = map_option route_pattern (matched_route rq_out)\<rparr>]) \<and>
         tags (spans (snd (snd (trace_tween d cfg handler st svc dt rq w))) sp) STATUS_CODE
           = Some (PStr (str_int 500)) \<and>
         error (spans (snd (snd (trace_tween d cfg handler st svc dt rq w))) sp) \<and>
         finished (spans (snd (snd (trace_tween d cfg handler st svc dt rq w))) sp)"
proof -
  note F = tween_final_span [of d cfg st svc dt rq w sp rq_in w_in handler "Inl x" rq_out w_out,
      OF assms(1,2)]
  have m: "http_calls (spans (snd (snd (trace_tween d cfg handler st svc dt rq w))) sp)
      = http_calls (spans w_out sp) @
                [\<lparr>hm_method = Some (request_method rq_out), hm_url = Some (path_url rq_out),
                  hm_status_code = PInt 500,
                  hm_query = Some (query_string rq_out),
                  hm_request_headers = Some (request_headers rq_out),
                  hm_response_headers = None,
                  hm_route = map_option route_pattern (matched_route rq_out)\<rparr>]"
    using F(5) assms(3) by (cases x) simp_all
  have "\<exists>wm. snd (snd (trace_tween d cfg handler st svc dt rq w)) = span_exit sp (Some x) wm \<and>
      http_calls (spans wm sp)
         = http_calls (spans (snd (snd (trace_tween d cfg handler st svc dt rq w))) sp) \<and>
      finished (spans wm sp) = finished (spans w_out sp)"
    using trace_tween_exit [of d cfg st svc dt rq w sp rq_in w_in handler "Inl x" rq_out w_out,
        OF assms(1,2)] unfolding raised_def by (simp, blast)
  then obtain wm where wm: "snd (snd (trace_tween d cfg handler st svc dt rq w)) = span_exit sp (Some x) wm"
      "http_calls (spans wm sp)
         = http_calls (spans (snd (snd (trace_tween d cfg handler st svc dt rq w))) sp)"
      "finished (spans wm sp) = finished (spans w_out sp)"
    by blast
  have t: "tags (spans (snd (snd (trace_tween d cfg handler st svc dt rq w))) sp) STATUS_CODE
      = Some (PStr (str_int 500))"
    using trace_tween_cases [of d cfg st svc dt rq w sp rq_in w_in handler "Inl x" rq_out w_out,
        OF assms(1,2)] assms(3)
    by (cases x) (simp_all add: span_exit_fields tween_finally_fields)
  from wm m have "\<exists>wm. snd (snd (trace_tween d cfg handler st svc dt rq w)) = span_exit sp (Some x) wm \<and>
            finished (spans wm sp) = finished (spans w_out sp) \<and>
            http_calls (spans wm sp)
              = http_calls (spans w_out sp) @
                [\<lparr>hm_method = Some (request_method rq_out), hm_url = Some (path_url rq_out),
                  hm_status_code = PInt 500,
                  hm_query = Some (query_string rq_out),
                  hm_request_headers = Some (request_headers rq_out),
                  hm_response_headers = None,
                  hm_route = map_option route_pattern (matched_route rq_out)\<rparr>]"
    by metis
  with F(1,6,7) t show ?thesis by (simp add: raised_def)
qed

theorem unhandled_exception_witness:
  "fst (trace_tween example_deps example_config failing_handler no_settings ''pyramid'' True
       get_missing fresh_world) = Inl (OtherException ''ZeroDivisionError'') \<and>
   hm_status_code (last (http_calls (spans (snd (snd (trace_tween example_deps example_config
       failing_handler no_settings ''pyramid'' True get_missing fresh_world))) 0))) = PInt 500 \<and>
   hm_method (last (http_calls (spans (snd (snd (trace_tween example_deps example_config
       failing_handler no_settings ''pyramid'' True get_missing fresh_world))) 0))) = Some ''GET'' \<and>
   finished (spans (snd (snd (trace_tween example_deps example_config failing_handler no_settings
       ''pyramid'' True get_missing fresh_world))) 0)"
proof -
  let ?w1 = "snd (snd (tween_prologue example_deps example_config no_settings ''pyramid'' True
       get_missing fresh_world))"
  let ?rq1 = "get_missing\<lparr>datadog_tracer := Some the_tracer\<rparr>"
  let ?x = "OtherException ''ZeroDivisionError''"
  let ?f = "snd (snd (trace_tween example_deps example_config failing_handler no_settings
       ''pyramid'' True get_missing fresh_world))"
  have p: "tween_prologue example_deps example_config no_settings ''pyramid'' True get_missing
        fresh_world = (0, ?rq1, ?w1)"
    using tween_prologue_triple [of example_deps example_config no_settings "''pyramid''" True
        get_missing fresh_world]
    by (simp add: example_worlds)
  have h: "failing_handler ?rq1 ?w1 = (Inl ?x, ?rq1, ?w1)"
    by (rule example_handlers)
  have n: "\<not> is_http_exception ?x" by simp
  note T = unhandled_exception [of example_deps example_config no_settings "''pyramid''" True
        get_missing fresh_world 0 ?rq1 ?w1 failing_handler ?x ?rq1 ?w1, OF p h n]
  from T obtain wm where wm: "?f = span_exit 0 (Some ?x) wm"
    "http_calls (spans wm 0) = http_calls (spans ?w1 0) @
                [\<lparr>hm_method = Some (request_method ?rq1), hm_url = Some (path_url ?rq1),
                  hm_status_code = PInt 500,
                  hm_query = Some (query_string ?rq1),
                  hm_request_headers = Some (request_headers ?rq1),
                  hm_response_headers = None,
                  hm_route = map_option route_pattern (matched_route ?rq1)\<rparr>]"
    by blast
  have "http_calls (spans ?f 0) = http_calls (spans wm 0)"
    unfolding wm(1) by (simp add: span_exit_fields)
  with wm(2) have "hm_status_code (last (http_calls (spans ?f 0))) = PInt 500"
    "hm_method (last (http_calls (spans ?f 0))) = Some ''GET''"
    by (simp_all add: get_missing_def)
  with T show ?thesis by simp
qed

section \<open>Pass-through\<close>

text \<open>
  Claim C10. A render call that carries no \<open>request\<close> keyword argument, or a value
  under it that is no request object, or a request without a (true) tracer attribute,
  is handed to the original render function in the same state and with the same
  arguments, and what that function returns is returned: the wrapper opens no span and
  leaves the process as the original function leaves it.
\<close>

theorem render_without_tracer:
  assumes "map_of kwargs ''request'' = None \<or>
           (\<exists>v. map_of kwargs ''request'' = Some (Val v)) \<or>
           (\<exists>rq. map_of kwargs ''request'' = Some (Req rq) \<and>
                 \<not> truthy (or_none (datadog_tracer rq)))"
  shows "trace_render cfg func args kwargs w = func args kwargs w"
  using assms by (auto simp add: trace_render_def Let_def)

theorem render_without_tracer_witness:
  "trace_render example_config plain_render [] [] fresh_world = (Inr (PStr ''<html/>''), fresh_world) \<and>
   trace_render example_config plain_render [] [(''request'', Req get_missing)] fresh_world
     = (Inr (PStr ''<html/>''), fresh_world)"
proof -
  have a: "map_of ([] :: render_kwargs) ''request'' = None \<or>
           (\<exists>v. map_of ([] :: render_kwargs) ''request'' = Some (Val v)) \<or>
           (\<exists>rq. map_of ([] :: render_kwargs) ''request'' = Some (Req rq) \<and>
                 \<not> truthy (or_none (datadog_tracer rq)))"
    by simp
  have b: "map_of [(''request'', Req get_missing)] ''request'' = None \<or>
           (\<exists>v. map_of [(''request'', Req get_missing)] ''request'' = Some (Val v)) \<or>
           (\<exists>rq. map_of [(''request'', Req get_missing)] ''request'' = Some (Req rq) \<and>
                 \<not> truthy (or_none (datadog_tracer rq)))"
    by (simp add: get_missing_def or_none_def)
  show ?thesis
    using render_without_tracer [OF a, of example_config plain_render "[]" fresh_world]
      render_without_tracer [OF b, of example_config plain_render "[]" fresh_world]
    by (simp add: plain_render_def)
qed

text \<open>
  Claim C7, as the code has it. The wrapped WSGI call is the wrapped callable itself,
  on the same arguments and state, when the pin is absent or its tracer is disabled.
  The pyramid tween factory returns the original handler when the flag it computes is
  false: the setting \<open>datadog_trace_enabled\<close> read through \<open>asbool\<close>, and the
  tracer's enabled flag only when that setting is absent. The render wrapper passes
  through when the call carries no request or the request carries no tracer attribute;
  it does not look at the tracer's enabled flag.
\<close>

theorem disabled_passthrough:
  "(molten_pin w = None \<or> \<not> tracer_enabled w \<longrightarrow>
      patch_app_call d cfg wrapped (environ, sr) kw w = app_call wrapped environ sr kw w) \<and>
   (\<not> tween_enabled st t \<longrightarrow> trace_tween_factory d cfg handler st t = handler) \<and>
   (datadog_trace_enabled st = None \<and> datadog_tracer_setting st = None \<and> \<not> tracer_enabled t \<longrightarrow>
      trace_tween_factory d cfg handler st t = handler) \<and>
   (map_of rkw ''request'' = None \<or>
    (\<exists>rq. map_of rkw ''request'' = Some (Req rq) \<and> datadog_tracer rq = None) \<longrightarrow>
      trace_render cfg func args rkw rw = func args rkw rw)"
proof (intro conjI impI)
  assume "molten_pin w = None \<or> \<not> tracer_enabled w"
  then show "patch_app_call d cfg wrapped (environ, sr) kw w = app_call wrapped environ sr kw w"
    by (auto simp add: patch_app_call_def pin_enabled_def split: option.splits)
next
  assume "\<not> tween_enabled st t"
  then show "trace_tween_factory d cfg handler st t = handler"
    by (simp add: trace_tween_factory_def Let_def)
next
  assume "datadog_trace_enabled st = None \<and> datadog_tracer_setting st = None \<and> \<not> tracer_enabled t"
  then have "\<not> tween_enabled st t"
    by (simp add: tween_enabled_def asbool_def)
  then show "trace_tween_factory d cfg handler st t = handler"
    by (simp add: trace_tween_factory_def Let_def)
next
  assume "map_of rkw ''request'' = None \<or>
    (\<exists>rq. map_of rkw ''request'' = Some (Req rq) \<and> datadog_tracer rq = None)"
  then show "trace_render cfg func args rkw rw = func args rkw rw"
    by (auto simp add: trace_render_def Let_def or_none_def)
qed

theorem disabled_passthrough_witness:
  "patch_app_call example_deps example_config (emit_app ''200 OK'')
       (get_environ, server_start_response) [] disabled_world
     = (Inr (PObj 2), disabled_world) \<and>
   trace_tween_factory example_deps example_config not_found_handler no_settings disabled_world
     = not_found_handler \<and>
   trace_render example_config plain_render [] [] disabled_world
     = (Inr (PStr ''<html/>''), disabled_world)"
proof -
  note T = disabled_passthrough [where w = disabled_world and d = example_deps
      and cfg = example_config and wrapped = "emit_app ''200 OK''" and environ = get_environ
      and sr = server_start_response and kw = "[]" and st = no_settings and t = disabled_world
      and handler = not_found_handler and rkw = "[]" and func = plain_render and args = "[]"
      and rw = disabled_world]
  have h1: "molten_pin disabled_world = None \<or> \<not> tracer_enabled disabled_world"
    by (simp add: disabled_world_def)
  have h2: "\<not> tween_enabled no_settings disabled_world"
    by (simp add: tween_enabled_def no_settings_def disabled_world_def asbool_def)
  have h3: "datadog_trace_enabled no_settings = None \<and> datadog_tracer_setting no_settings = None \<and>
      \<not> tracer_enabled disabled_world"
    by (simp add: no_settings_def disabled_world_def)
  have h4: "map_of ([] :: render_kwargs) ''request'' = None \<or>
    (\<exists>rq. map_of ([] :: render_kwargs) ''request'' = Some (Req rq) \<and> datadog_tracer rq = None)"
    by simp
  show ?thesis
    using T h1 h2 h3 h4
    by (simp add: emit_app_def server_start_response_def plain_render_def)
qed

text \<open>
  Claim C7 as the spec words it fails in pyramid: with the tracer disabled and the
  setting \<open>datadog_trace_enabled\<close> set to \<open>True\<close>, the factory returns the tracing
  tween, which opens a span where the bare handler opens none; and the render wrapper
  opens a span for a request that carries the tracer attribute, whatever the tracer's
  enabled flag.
\<close>

theorem disabled_tracer_counterexample:
  "\<not> tracer_enabled disabled_world \<and>
   next_span (snd (snd (not_found_handler get_missing disabled_world))) = 0 \<and>
   next_span (snd (snd (trace_tween_factory example_deps example_config not_found_handler
       forced_settings disabled_world get_missing disabled_world))) = 1 \<and>
   next_span (snd (plain_render [] [(''request'', Req (get_missing\<lparr>datadog_tracer := Some the_tracer\<rparr>))]
       disabled_world)) = 0 \<and>
   next_span (snd (trace_render example_config plain_render []
       [(''request'', Req (get_missing\<lparr>datadog_tracer := Some the_tracer\<rparr>))] disabled_world)) = 1"
proof -
  let ?w1 = "snd (snd (tween_prologue example_deps example_config forced_settings ''pyramid'' True
       get_missing disabled_world))"
  let ?rq1 = "get_missing\<lparr>datadog_tracer := Some the_tracer\<rparr>"
  have n: "next_span disabled_world = 0" "\<not> tracer_enabled disabled_world"
    by (simp_all add: disabled_world_def fresh_world_def)
  have en: "tween_enabled forced_settings disabled_world"
    by (simp add: tween_enabled_def forced_settings_def asbool_def no_settings_def)
  have f: "trace_tween_factory example_deps example_config not_found_handler forced_settings
        disabled_world
      = trace_tween example_deps example_config not_found_handler forced_settings ''pyramid'' True"
    using en
    by (simp add: trace_tween_factory_def Let_def forced_settings_def no_settings_def
          example_deps_def asbool_def)
  have p: "tween_prologue example_deps example_config forced_settings ''pyramid'' True get_missing
        disabled_world = (0, ?rq1, ?w1)"
    using tween_prologue_triple [of example_deps example_config forced_settings "''pyramid''" True
        get_missing disabled_world]
    by (simp add: n)
  have h: "not_found_handler ?rq1 ?w1
        = (Inr (Some \<lparr>status_code = 404, resp_headers = []\<rparr>), ?rq1, ?w1)"
    by (rule example_handlers)
  have "snd (snd (trace_tween example_deps example_config not_found_handler forced_settings
        ''pyramid'' True get_missing disabled_world))
      = span_exit 0 None (tween_finally example_deps example_config 0 ?rq1
          (Some \<lparr>status_code = 404, resp_headers = []\<rparr>) PNone ?w1)"
    using trace_tween_cases [of example_deps example_config forced_settings "''pyramid''" True
        get_missing disabled_world 0 ?rq1 ?w1 not_found_handler
        "Inr (Some \<lparr>status_code = 404, resp_headers = []\<rparr>)" ?rq1 ?w1] p h
    by (simp add: raised_def)
  then have a: "next_span (snd (snd (trace_tween_factory example_deps example_config
       not_found_handler forced_settings disabled_world get_missing disabled_world))) = 1"
    using tween_prologue_state(6) [of example_deps example_config forced_settings "''pyramid''"
        True get_missing disabled_world]
    by (simp add: f span_exit_fields tween_finally_fields n)
  have k: "map_of [(''request'', Req ?rq1)] ''request'' = Some (Req ?rq1)"
    "datadog_tracer ?rq1 = Some the_tracer"
    by simp_all
  have b: "next_span (snd (trace_render example_config plain_render []
       [(''request'', Req ?rq1)] disabled_world)) = 1"
    using trace_render_traced [OF k, of example_config plain_render "[]" disabled_world]
    by (simp add: Let_def plain_render_def span_exit_fields span_ops on_span_fields
          tracer_trace_fields n)
  show ?thesis
    using a b by (simp add: n example_handlers plain_render_def)
qed

section \<open>Installing the instrumentation\<close>

text \<open>
  Claim C8. A second \<open>patch()\<close> changes nothing, and a second \<open>includeme\<close> adds no
  wrapper to \<open>RendererHelper.render\<close>. Starting from a process without
  instrumentation, after two installations there is exactly one wrapper layer around
  \<open>BaseApp.__init__\<close>, one around \<open>App.__call__\<close> and one around the render
  function; and, with the tracer enabled, constructing an application then puts
  exactly one wrapper around the router and around each middleware, component and
  renderer.
\<close>

theorem patch_idempotent:
  "patch (patch w) = patch w \<and>
   render_wrappers (includeme (includeme w)) = render_wrappers (includeme w) \<and>
   (\<not> molten_patched w \<and> init_wrappers w = 0 \<and> call_wrappers w = 0 \<longrightarrow>
      init_wrappers (patch (patch w)) = 1 \<and> call_wrappers (patch (patch w)) = 1) \<and>
   (render_wrappers w = 0 \<longrightarrow> render_wrappers (includeme (includeme w)) = 1) \<and>
   (\<not> molten_patched w \<and> init_wrappers w = 0 \<and> tracer_enabled w \<and> orig args = Inr a \<longrightarrow>
      base_app_init orig args (patch (patch w)) =
        Inr (a\<lparr>router := WrapperRouter (router a),
               middleware := map WrapperMiddleware (middleware a),
               injector_components := map WrapperComponent (injector_components a),
               renderers := map WrapperRenderer (renderers a)\<rparr>))"
proof (intro conjI impI)
  show "patch (patch w) = patch w" by (rule patch_twice)
  show "render_wrappers (includeme (includeme w)) = render_wrappers (includeme w)"
    by (simp add: includeme_wrappers)
next
  assume a: "\<not> molten_patched w \<and> init_wrappers w = 0 \<and> call_wrappers w = 0"
  then show "init_wrappers (patch (patch w)) = 1" by (simp add: patch_twice patch_fresh)
  from a show "call_wrappers (patch (patch w)) = 1" by (simp add: patch_twice patch_fresh)
next
  assume "render_wrappers w = 0"
  then show "render_wrappers (includeme (includeme w)) = 1" by (simp add: includeme_wrappers)
next
  assume a: "\<not> molten_patched w \<and> init_wrappers w = 0 \<and> tracer_enabled w \<and> orig args = Inr a"
  then have "base_app_init orig args (patch (patch w)) = patch_app_init orig args (patch w)"
    by (simp add: patch_twice base_app_init_def patch_fresh)
  also have "\<dots> = Inr (a\<lparr>router := WrapperRouter (router a),
               middleware := map WrapperMiddleware (middleware a),
               injector_components := map WrapperComponent (injector_components a),
               renderers := map WrapperRenderer (renderers a)\<rparr>)"
    using a patch_app_init_enabled [of "patch w" "\<lparr>pin_service = None\<rparr>" orig args a]
    by (simp add: patch_fresh)
  finally show "base_app_init orig args (patch (patch w)) =
        Inr (a\<lparr>router := WrapperRouter (router a),
               middleware := map WrapperMiddleware (middleware a),
               injector_components := map WrapperComponent (injector_components a),
               renderers := map WrapperRenderer (renderers a)\<rparr>)" .
qed

theorem patch_idempotent_witness:
  "init_wrappers (patch (patch fresh_world)) = 1 \<and>
   call_wrappers (patch (patch fresh_world)) = 1 \<and>
   render_wrappers (includeme (includeme fresh_world)) = 1 \<and>
   (case base_app_init (\<lambda>_. Inr bare_app) () (patch (patch fresh_world)) of
      Inl e \<Rightarrow> False
    | Inr a \<Rightarrow> wrap_depth (router a) = 1 \<and> map wrap_depth (middleware a) = [1, 1] \<and>
        map wrap_depth (injector_components a) = [1] \<and> map wrap_depth (renderers a) = [1])"
proof -
  have h: "\<not> molten_patched fresh_world" "init_wrappers fresh_world = 0"
    "call_wrappers fresh_world = 0" "render_wrappers fresh_world = 0" "tracer_enabled fresh_world"
    by (simp_all add: fresh_world_def)
  show ?thesis
    using h patch_idempotent [of fresh_world "\<lambda>_. Inr bare_app" "()" bare_app, THEN conjunct2]
    by (simp add: bare_app_def)
qed

end
